theory Spec2Isabelle
  imports Main
begin

section \<open>The upload list and the per-TV synchronisation of art.py\<close>

text \<open>
  This theory embeds \<^verbatim>\<open>homeassistant-samsung-frametv-artchanger/art.py\<close>: the list
  \<^verbatim>\<open>uploaded_files\<close> and the functions \<^verbatim>\<open>ensure_upload_dir\<close>,
  \<^verbatim>\<open>remove_uploaded_entry\<close>, \<^verbatim>\<open>ensure_image_data\<close>, \<^verbatim>\<open>process_tv\<close>,
  \<^verbatim>\<open>get_image_for_tv\<close>, \<^verbatim>\<open>save_debug_image\<close> and the module-level script.

  The script talks to the television (\<^verbatim>\<open>SamsungTVWS\<close>), to the image sources, to
  \<^verbatim>\<open>random\<close> and to the file system. Their answers are not determined by the script, so
  they are functions of an abstract world \<open>'w\<close> that every call may change; the record
  \<open>env\<close> collects them. Python's \<^verbatim>\<open>None\<close> is \<open>None\<close> of an option type.

  What a call to the television or to the file system raises is a value of the call's
  result type. Where the source catches it (\<^verbatim>\<open>select_image\<close>, \<^verbatim>\<open>upload\<close>, \<^verbatim>\<open>os.makedirs\<close>, the
  write of the upload list at lines 181 and 182) the model takes the handler's branch. Where
  it does not (\<^verbatim>\<open>tv.art().supported()\<close> at line 131 and the write of the upload list at
  lines 95 and 96, which is also reached from the handlers of lines 142 to 151) the function
  ends with the outcome \<open>Raised\<close>, the loop over the televisions stops, and the script ends
  with \<open>Uncaught\<close>. A write that raises leaves the file as it was. The image sources and
  \<^verbatim>\<open>resize_and_crop_image\<close> are not among the sources of this repository given here; they
  are taken to follow the contract of the specification, where a failure is a returned
  \<^verbatim>\<open>None\<close>. Two more calls of the script can raise and are taken to return: the
  \<^verbatim>\<open>json.load\<close> of line 52 (an upload-list file on the disk holds a list of records), and
  the write of a debug image at lines 211 and 212, which is made only with \<^verbatim>\<open>--debugimage\<close>;
  the theorems that say how a run ends are stated for runs without that option.

  Every call to a collaborator and every \<^verbatim>\<open>logging\<close> call is recorded, in order, in the
  field \<open>trace\<close> of the state; the trace is how the theorems count fetches and uploads.
\<close>

subsection \<open>Data\<close>

type_synonym bytes = "nat list"

text \<open>One dictionary of \<^verbatim>\<open>uploaded_files\<close>, with the four keys that line 174 writes.\<close>

record entry =
  e_file :: "string option"
  e_remote_filename :: string
  e_tv_ip :: "string option"
  e_source :: "string option"

datatype source = bing_wallpapers | google_art | media_folder

fun name_of_module :: "source \<Rightarrow> string" where
  "name_of_module bing_wallpapers = ''sources.bing_wallpapers''"
| "name_of_module google_art = ''sources.google_art''"
| "name_of_module media_folder = ''sources.media_folder''"

text \<open>
  \<^verbatim>\<open>source_lookup.get(source_name)\<close>, lines 71 to 75 and 108. Where it finds a module, the
  name looked up is that module's \<^verbatim>\<open>__name__\<close>.
\<close>

definition source_lookup :: "string option \<Rightarrow> source option" where
  "source_lookup source_name =
     (if source_name = Some (name_of_module bing_wallpapers) then Some bing_wallpapers
      else if source_name = Some (name_of_module google_art) then Some google_art
      else if source_name = Some (name_of_module media_folder) then Some media_folder
      else None)"

text \<open>The parsed command line, lines 17 to 28.\<close>

record args =
  arg_upload_all :: bool
  arg_tvip :: "string option"
  arg_same_image :: bool
  arg_google_art :: bool
  arg_bing_wallpapers :: bool
  arg_media_folder :: bool
  arg_debugimage :: bool

text \<open>The truth value Python gives an optional string: \<^verbatim>\<open>None\<close> and \<^verbatim>\<open>''\<close> are false.\<close>

fun truthy :: "string option \<Rightarrow> bool" where
  "truthy None = False"
| "truthy (Some s) = (s \<noteq> [])"

text \<open>\<^verbatim>\<open>str.split(',')\<close>: one more field than there are commas.\<close>

fun split_comma :: "string \<Rightarrow> string list" where
  "split_comma [] = [[]]"
| "split_comma (c # cs) =
     (if c = CHR '','' then [] # split_comma cs
      else (case split_comma cs of [] \<Rightarrow> [[c]] | w # ws \<Rightarrow> (c # w) # ws))"

text \<open>Line 77.\<close>

definition tvip :: "args \<Rightarrow> string list" where
  "tvip a = (case arg_tvip a of
               None \<Rightarrow> []
             | Some s \<Rightarrow> if s \<noteq> [] then split_comma s else [])"

text \<open>Lines 59 to 65.\<close>

definition sources :: "args \<Rightarrow> source list" where
  "sources a =
     (if arg_bing_wallpapers a then [bing_wallpapers] else []) @
     (if arg_google_art a then [google_art] else []) @
     (if arg_media_folder a then [media_folder] else [])"

definition use_same_image :: "args \<Rightarrow> bool" where
  "use_same_image a = arg_same_image a"

subsection \<open>Collaborators, trace and state\<close>

datatype select_result = SelectOk | SelectResponseError | SelectOtherError

datatype upload_result = UploadReturned "string option" | UploadRaised

datatype supported_result = SupportedReturned bool | SupportedRaised

text \<open>How a function of the script ends: it returns, or an exception leaves it.\<close>

datatype outcome = Returned | Raised

datatype level = INFO | WARNING | ERROR

datatype event =
    Log level
  | Makedirs string
  | RandomChoice
  | GetImageUrl source
  | GetImage source "string option"
  | Resize
  | ArtSupported string
  | SelectImage string string
  | Upload string
  | WriteUploadList
  | WriteUploadListFailed
  | DebugImage string

record 'w env =
  tv_supported :: "string \<Rightarrow> 'w \<Rightarrow> supported_result \<times> 'w"
  tv_select_image :: "string \<Rightarrow> string \<Rightarrow> 'w \<Rightarrow> select_result \<times> 'w"
  tv_upload :: "string \<Rightarrow> bytes \<Rightarrow> string \<Rightarrow> 'w \<Rightarrow> upload_result \<times> 'w"
  src_get_image_url :: "source \<Rightarrow> 'w \<Rightarrow> string option \<times> 'w"
  src_get_image :: "source \<Rightarrow> string option \<Rightarrow> 'w \<Rightarrow> (bytes option \<times> string option) \<times> 'w"
  utils_resize_and_crop_image :: "bytes \<Rightarrow> bytes"
  random_index :: "'w \<Rightarrow> nat \<times> 'w"
  os_makedirs :: "string \<Rightarrow> 'w \<Rightarrow> bool \<times> 'w"
  fs_write :: "string \<Rightarrow> 'w \<Rightarrow> bool \<times> 'w"

text \<open>
  The state of the process: the list \<^verbatim>\<open>uploaded_files\<close>, the path \<^verbatim>\<open>upload_list_path\<close>, the
  upload-list files on disk (by path), the world and the trace.
\<close>

record 'w state =
  uploaded_files :: "entry list"
  upload_list_path :: string
  disk :: "string \<rightharpoonup> entry list"
  world :: 'w
  trace :: "event list"

definition emit :: "event \<Rightarrow> 'w state \<Rightarrow> 'w state" where
  "emit ev s = s\<lparr>trace := trace s @ [ev]\<rparr>"

definition logging :: "level \<Rightarrow> 'w state \<Rightarrow> 'w state" where
  "logging l s = emit (Log l) s"

definition call_supported ::
  "'w env \<Rightarrow> string \<Rightarrow> 'w state \<Rightarrow> supported_result \<times> 'w state" where
  "call_supported env tv s =
     (case tv_supported env tv (world s) of
        (r, w) \<Rightarrow> (r, emit (ArtSupported tv) (s\<lparr>world := w\<rparr>)))"

definition call_select_image ::
  "'w env \<Rightarrow> string \<Rightarrow> string \<Rightarrow> 'w state \<Rightarrow> select_result \<times> 'w state" where
  "call_select_image env tv name s =
     (case tv_select_image env tv name (world s) of
        (r, w) \<Rightarrow> (r, emit (SelectImage tv name) (s\<lparr>world := w\<rparr>)))"

definition call_upload ::
  "'w env \<Rightarrow> string \<Rightarrow> bytes \<Rightarrow> string \<Rightarrow> 'w state \<Rightarrow> upload_result \<times> 'w state" where
  "call_upload env tv data ft s =
     (case tv_upload env tv data ft (world s) of
        (r, w) \<Rightarrow> (r, emit (Upload tv) (s\<lparr>world := w\<rparr>)))"

definition call_get_image_url :: "'w env \<Rightarrow> source \<Rightarrow> 'w state \<Rightarrow> string option \<times> 'w state" where
  "call_get_image_url env src s =
     (case src_get_image_url env src (world s) of
        (r, w) \<Rightarrow> (r, emit (GetImageUrl src) (s\<lparr>world := w\<rparr>)))"

definition call_get_image ::
  "'w env \<Rightarrow> source \<Rightarrow> string option \<Rightarrow> 'w state \<Rightarrow> (bytes option \<times> string option) \<times> 'w state" where
  "call_get_image env src url s =
     (case src_get_image env src url (world s) of
        (r, w) \<Rightarrow> (r, emit (GetImage src url) (s\<lparr>world := w\<rparr>)))"

definition call_resize :: "'w env \<Rightarrow> bytes \<Rightarrow> 'w state \<Rightarrow> bytes \<times> 'w state" where
  "call_resize env data s = (utils_resize_and_crop_image env data, emit Resize s)"

text \<open>\<^verbatim>\<open>random.choice(sources)\<close> on a list that line 67 has checked is not empty.\<close>

definition random_choice :: "'w env \<Rightarrow> source list \<Rightarrow> 'w state \<Rightarrow> source \<times> 'w state" where
  "random_choice env xs s =
     (case random_index env (world s) of
        (i, w) \<Rightarrow> (xs ! (i mod length xs), emit RandomChoice (s\<lparr>world := w\<rparr>)))"

definition call_makedirs :: "'w env \<Rightarrow> string \<Rightarrow> 'w state \<Rightarrow> bool \<times> 'w state" where
  "call_makedirs env path s =
     (case os_makedirs env path (world s) of
        (r, w) \<Rightarrow> (r, emit (Makedirs path) (s\<lparr>world := w\<rparr>)))"

text \<open>
  \<^verbatim>\<open>with open(upload_list_path, 'w') as f: json.dump(uploaded_files, f)\<close>. The result says
  whether the write went through; when it raises, the file is as before.
\<close>

definition write_upload_list :: "'w env \<Rightarrow> 'w state \<Rightarrow> bool \<times> 'w state" where
  "write_upload_list env s =
     (case fs_write env (upload_list_path s) (world s) of
        (True, w) \<Rightarrow>
          (True,
           emit WriteUploadList
             (s\<lparr>world := w, disk := (disk s)(upload_list_path s \<mapsto> uploaded_files s)\<rparr>))
      | (False, w) \<Rightarrow> (False, emit WriteUploadListFailed (s\<lparr>world := w\<rparr>)))"

subsection \<open>ensure_upload_dir, lines 31 to 47\<close>

definition PREFERRED_DIR :: string where
  "PREFERRED_DIR = ''/share/SamsungFrameTVArtChanger''"

definition FALLBACK_DIR :: string where
  "FALLBACK_DIR = ''/data''"

text \<open>The \<^verbatim>\<open>for\<close> loop of lines 36 to 41 over the remaining candidates, then lines 42 and 43.\<close>

fun ensure_upload_dir_loop :: "'w env \<Rightarrow> string list \<Rightarrow> 'w state \<Rightarrow> string \<times> 'w state" where
  "ensure_upload_dir_loop env [] s = (''.'', logging ERROR s)"
| "ensure_upload_dir_loop env (path # paths) s =
     (case call_makedirs env path s of
        (True, s1) \<Rightarrow> (path, s1)
      | (False, s1) \<Rightarrow> ensure_upload_dir_loop env paths (logging WARNING s1))"

definition ensure_upload_dir :: "'w env \<Rightarrow> 'w state \<Rightarrow> string \<times> 'w state" where
  "ensure_upload_dir env s = ensure_upload_dir_loop env [PREFERRED_DIR, FALLBACK_DIR] s"

subsection \<open>remove_uploaded_entry, lines 83 to 96\<close>

text \<open>The write of lines 95 and 96 is in no \<^verbatim>\<open>try\<close>: when it raises, the function does.\<close>

definition remove_uploaded_entry ::
  "args \<Rightarrow> 'w env \<Rightarrow> string option \<Rightarrow> string option \<Rightarrow> string \<Rightarrow> 'w state
     \<Rightarrow> outcome \<times> 'w state" where
  "remove_uploaded_entry a env image_url source_name tv_ip s =
     (let target_ip = (if length (tvip a) > 1 then Some tv_ip else None);
          original_len = length (uploaded_files s);
          s1 = s\<lparr>uploaded_files :=
                   filter (\<lambda>entry. \<not> (e_file entry = image_url
                                      \<and> e_source entry = source_name
                                      \<and> e_tv_ip entry = target_ip))
                          (uploaded_files s)\<rparr>
      in if length (uploaded_files s1) \<noteq> original_len then
           (case write_upload_list env s1 of
              (True, s2) \<Rightarrow> (Returned, s2)
            | (False, s2) \<Rightarrow> (Raised, s2))
         else (Returned, s1))"

subsection \<open>save_debug_image, lines 209 to 213\<close>

definition save_debug_image :: "args \<Rightarrow> string \<Rightarrow> 'w state \<Rightarrow> 'w state" where
  "save_debug_image a filename s =
     (if arg_debugimage a then logging INFO (emit (DebugImage filename) s) else s)"

subsection \<open>ensure_image_data, lines 99 to 125\<close>

definition ensure_image_data ::
  "args \<Rightarrow> 'w env \<Rightarrow> bytes option \<Rightarrow> string option \<Rightarrow> string option \<Rightarrow> string option
     \<Rightarrow> 'w state \<Rightarrow> (bytes option \<times> string option) \<times> 'w state" where
  "ensure_image_data a env image_data file_type source_name image_url s =
     (if image_data \<noteq> None \<and> file_type \<noteq> None then ((image_data, file_type), s)
      else
        (case source_lookup source_name of
           None \<Rightarrow> ((None, None), logging ERROR s)
         | Some source_module \<Rightarrow>
            (case call_get_image env source_module image_url s of
               ((None, retrieved_file_type), s1) \<Rightarrow> ((None, None), logging ERROR s1)
             | ((Some original_image_data, retrieved_file_type), s1) \<Rightarrow>
                (let s2 = save_debug_image a
                            (''debug_'' @ name_of_module source_module @ ''_original.jpg'') s1;
                     s3 = logging INFO s2
                 in (case call_resize env original_image_data s3 of
                       (resized_image_data, s4) \<Rightarrow>
                         ((Some resized_image_data, retrieved_file_type),
                          save_debug_image a
                            (''debug_'' @ name_of_module source_module @ ''_resized.jpg'') s4))))))"

subsection \<open>process_tv, lines 127 to 184\<close>

text \<open>
  The body of \<^verbatim>\<open>process_tv\<close> is embedded in three parts, in the order of the source.

  Lines 137 to 151, the attempt to select the stored image. The result
  \<open>(returned, needs_upload, remote_filename)\<close> says whether the function returned at line
  141, and gives the two variables as they are at line 153. The calls of
  \<^verbatim>\<open>remove_uploaded_entry\<close> at lines 144 and 149 stand inside the handlers, so what they raise
  leaves \<^verbatim>\<open>process_tv\<close>.
\<close>

definition select_existing ::
  "args \<Rightarrow> 'w env \<Rightarrow> string \<Rightarrow> string option \<Rightarrow> string option \<Rightarrow> string option
     \<Rightarrow> bool \<Rightarrow> 'w state \<Rightarrow> outcome \<times> (bool \<times> bool \<times> string option) \<times> 'w state" where
  "select_existing a env tv_ip image_url remote_filename source_name needs_upload s =
     (case remote_filename of
        None \<Rightarrow> (Returned, (False, needs_upload, remote_filename), s)
      | Some name \<Rightarrow>
          if \<not> arg_upload_all a then
            (case call_select_image env tv_ip name (logging INFO s) of
               (SelectOk, s1) \<Rightarrow> (Returned, (True, needs_upload, remote_filename), s1)
             | (SelectResponseError, s1) \<Rightarrow>
                 (case remove_uploaded_entry a env image_url source_name tv_ip
                         (logging WARNING s1) of
                    (out, s2) \<Rightarrow> (out, (False, True, None), s2))
             | (SelectOtherError, s1) \<Rightarrow>
                 (case remove_uploaded_entry a env image_url source_name tv_ip
                         (logging WARNING s1) of
                    (out, s2) \<Rightarrow> (out, (False, True, None), s2)))
          else (Returned, (False, needs_upload, remote_filename), s))"

text \<open>
  Lines 165 to 184, the \<^verbatim>\<open>try\<close> block. A \<^verbatim>\<open>ResponseError\<close> raised by \<^verbatim>\<open>select_image\<close> at
  line 171 is an \<^verbatim>\<open>Exception\<close> and is caught at line 183 like any other, and so is what
  the write of lines 181 and 182 raises: the record appended at line 174 stays in the list.
\<close>

definition upload_and_select ::
  "args \<Rightarrow> 'w env \<Rightarrow> string \<Rightarrow> bytes \<Rightarrow> string \<Rightarrow> string option \<Rightarrow> string option
     \<Rightarrow> 'w state \<Rightarrow> 'w state" where
  "upload_and_select a env tv_ip image_data file_type image_url source_name s =
     (case call_upload env tv_ip image_data file_type (logging INFO s) of
        (UploadRaised, s1) \<Rightarrow> logging ERROR s1
      | (UploadReturned None, s1) \<Rightarrow> logging ERROR s1
      | (UploadReturned (Some remote_filename), s1) \<Rightarrow>
          (case call_select_image env tv_ip remote_filename s1 of
             (SelectOk, s2) \<Rightarrow>
               (let s3 = logging INFO s2
                in (case write_upload_list env
                           (s3\<lparr>uploaded_files := uploaded_files s3 @
                                [\<lparr>e_file = image_url,
                                  e_remote_filename = remote_filename,
                                  e_tv_ip = (if length (tvip a) > 1 then Some tv_ip
                                             else None),
                                  e_source = source_name\<rparr>]\<rparr>) of
                      (True, s4) \<Rightarrow> s4
                    | (False, s4) \<Rightarrow> logging ERROR s4))
           | (SelectResponseError, s2) \<Rightarrow> logging ERROR s2
           | (SelectOtherError, s2) \<Rightarrow> logging ERROR s2))"

text \<open>
  Lines 156 to 184: prepare the image, remove the old entry, upload. The call of
  \<^verbatim>\<open>remove_uploaded_entry\<close> at line 163 stands before the \<^verbatim>\<open>try\<close>.
\<close>

definition prepare_and_upload ::
  "args \<Rightarrow> 'w env \<Rightarrow> string \<Rightarrow> bytes option \<Rightarrow> string option \<Rightarrow> string option
     \<Rightarrow> string option \<Rightarrow> string option \<Rightarrow> 'w state \<Rightarrow> outcome \<times> 'w state" where
  "prepare_and_upload a env tv_ip image_data file_type image_url remote_filename source_name s =
     (case ensure_image_data a env image_data file_type source_name image_url s of
        ((None, file_type'), s1) \<Rightarrow> (Returned, logging ERROR s1)
      | ((Some image_data', None), s1) \<Rightarrow> (Returned, logging ERROR s1)
      | ((Some image_data', Some file_type'), s1) \<Rightarrow>
          (if remote_filename \<noteq> None then
             (case remove_uploaded_entry a env image_url source_name tv_ip s1 of
                (Raised, s2) \<Rightarrow> (Raised, s2)
              | (Returned, s2) \<Rightarrow>
                  (Returned,
                   upload_and_select a env tv_ip image_data' file_type' image_url
                     source_name s2))
           else
             (Returned,
              upload_and_select a env tv_ip image_data' file_type' image_url source_name
                s1)))"

text \<open>The whole function. Line 131 is in no \<^verbatim>\<open>try\<close>.\<close>

definition process_tv ::
  "args \<Rightarrow> 'w env \<Rightarrow> string \<Rightarrow> bytes option \<Rightarrow> string option \<Rightarrow> string option
     \<Rightarrow> string option \<Rightarrow> string option \<Rightarrow> 'w state \<Rightarrow> outcome \<times> 'w state" where
  "process_tv a env tv_ip image_data file_type image_url remote_filename source_name s =
     (case call_supported env tv_ip s of
        (SupportedRaised, s1) \<Rightarrow> (Raised, s1)
      | (SupportedReturned False, s1) \<Rightarrow> (Returned, logging WARNING s1)
      | (SupportedReturned True, s1) \<Rightarrow>
          (case select_existing a env tv_ip image_url remote_filename source_name
                  (remote_filename = None \<or> arg_upload_all a) s1 of
             (Raised, (returned, needs_upload, remote_filename'), s2) \<Rightarrow> (Raised, s2)
           | (Returned, (returned, needs_upload, remote_filename'), s2) \<Rightarrow>
               if returned then (Returned, s2)
               else if \<not> needs_upload then (Returned, s2)
               else prepare_and_upload a env tv_ip image_data file_type image_url
                      remote_filename' source_name s2))"

subsection \<open>The lookup of utils.get_remote_filename\<close>

text \<open>
  Modelled from the spec: \<^verbatim>\<open>utils/utils.py\<close>, which defines \<^verbatim>\<open>Utils.get_remote_filename\<close>, is
  not among the sources. The specification describes it as
  \<^verbatim>\<open>find(image_identifier, source_name, device_scope)\<close>: an exact-match lookup that returns
  the remote artifact id of the newest (or only) matching record, or nothing; and a record
  is inserted under the same triple that was used for the lookup, so the device scope of
  a lookup for \<^verbatim>\<open>tv_ip\<close> is the one that lines 84 and 177 compute. The records are appended
  at the end of the list, so the newest matching record is the last one.
\<close>

definition get_remote_filename ::
  "args \<Rightarrow> entry list \<Rightarrow> string option \<Rightarrow> string \<Rightarrow> string \<Rightarrow> string option" where
  "get_remote_filename a files image_url source_name tv_ip =
     (case filter (\<lambda>entry. e_file entry = image_url
                          \<and> e_source entry = Some source_name
                          \<and> e_tv_ip entry = (if length (tvip a) > 1 then Some tv_ip else None))
                  (rev files) of
        [] \<Rightarrow> None
      | entry # _ \<Rightarrow> Some (e_remote_filename entry))"

subsection \<open>get_image_for_tv, lines 186 to 207\<close>

definition get_image_for_tv ::
  "args \<Rightarrow> 'w env \<Rightarrow> string \<Rightarrow> 'w state
     \<Rightarrow> (bytes option \<times> string option \<times> string option \<times> string option \<times> string option)
        \<times> 'w state" where
  "get_image_for_tv a env tv_ip s =
     (case random_choice env (sources a) s of
        (selected_source, s0) \<Rightarrow>
          (case call_get_image_url env selected_source (logging INFO s0) of
             (image_url, s1) \<Rightarrow>
               (let remote_filename =
                      get_remote_filename a (uploaded_files s1) image_url
                        (name_of_module selected_source) tv_ip
                in if truthy remote_filename
                   then ((None, None, image_url, remote_filename,
                          Some (name_of_module selected_source)), s1)
                   else
                     (case call_get_image env selected_source image_url s1 of
                        ((None, file_type), s2) \<Rightarrow> ((None, None, None, None, None), s2)
                      | ((Some image_data, file_type), s2) \<Rightarrow>
                          (let s3 = save_debug_image a
                                      (''debug_'' @ name_of_module selected_source
                                         @ ''_original.jpg'') s2;
                               s4 = logging INFO s3
                           in (case call_resize env image_data s4 of
                                 (resized_image_data, s5) \<Rightarrow>
                                   ((Some resized_image_data, file_type, image_url, None,
                                     Some (name_of_module selected_source)),
                                    save_debug_image a
                                      (''debug_'' @ name_of_module selected_source
                                         @ ''_resized.jpg'') s5)))))))"

subsection \<open>The script, lines 46 to 80 and 215 to 260\<close>

text \<open>
  How the script ends: at its last line, by \<^verbatim>\<open>sys.exit\<close>, or by an exception that nothing
  catches.
\<close>

datatype exit = Finished | SysExit nat | Uncaught

fun ended :: "outcome \<times> 'w state \<Rightarrow> exit \<times> 'w state" where
  "ended (Returned, s) = (Finished, s)"
| "ended (Raised, s) = (Uncaught, s)"

text \<open>The loop of lines 229 to 234; it reads the list and changes nothing.\<close>

fun lookup_loop ::
  "args \<Rightarrow> entry list \<Rightarrow> string option \<Rightarrow> string \<Rightarrow> string list
     \<Rightarrow> (string \<rightharpoonup> string) \<times> string list \<Rightarrow> (string \<rightharpoonup> string) \<times> string list" where
  "lookup_loop a files image_url source_name [] acc = acc"
| "lookup_loop a files image_url source_name (tv_ip # rest) (remote_filenames, upload_targets) =
     (let remote = get_remote_filename a files image_url source_name tv_ip
      in if truthy remote
         then lookup_loop a files image_url source_name rest
                (remote_filenames(tv_ip \<mapsto> the remote), upload_targets)
         else lookup_loop a files image_url source_name rest
                (remote_filenames, upload_targets @ [tv_ip]))"

text \<open>The loop of lines 251 to 253.\<close>

fun same_image_loop ::
  "args \<Rightarrow> 'w env \<Rightarrow> bytes option \<Rightarrow> string option \<Rightarrow> string option
     \<Rightarrow> (string \<rightharpoonup> string) \<Rightarrow> string \<Rightarrow> string list \<Rightarrow> 'w state
     \<Rightarrow> outcome \<times> 'w state" where
  "same_image_loop a env image_data file_type image_url remote_filenames source_name [] s =
     (Returned, s)"
| "same_image_loop a env image_data file_type image_url remote_filenames source_name
     (tv_ip # rest) s =
     (case process_tv a env tv_ip image_data file_type image_url (remote_filenames tv_ip)
             (Some source_name) s of
        (Raised, s1) \<Rightarrow> (Raised, s1)
      | (Returned, s1) \<Rightarrow>
          same_image_loop a env image_data file_type image_url remote_filenames source_name
            rest s1)"

text \<open>The loop of lines 255 to 257.\<close>

fun different_images_loop ::
  "args \<Rightarrow> 'w env \<Rightarrow> string list \<Rightarrow> 'w state \<Rightarrow> outcome \<times> 'w state" where
  "different_images_loop a env [] s = (Returned, s)"
| "different_images_loop a env (tv_ip # rest) s =
     (case get_image_for_tv a env tv_ip s of
        ((image_data, file_type, image_url, remote_filename, source_name), s1) \<Rightarrow>
          (case process_tv a env tv_ip image_data file_type image_url remote_filename
                  source_name s1 of
             (Raised, s2) \<Rightarrow> (Raised, s2)
           | (Returned, s2) \<Rightarrow> different_images_loop a env rest s2))"

text \<open>Lines 217 to 253: the same image for every television.\<close>

definition same_image_branch :: "args \<Rightarrow> 'w env \<Rightarrow> 'w state \<Rightarrow> exit \<times> 'w state" where
  "same_image_branch a env s =
     (case random_choice env (sources a) s of
        (selected_source, s0) \<Rightarrow>
          (case call_get_image_url env selected_source (logging INFO s0) of
             (image_url, s1) \<Rightarrow>
               if \<not> truthy image_url then (SysExit 1, logging ERROR s1)
               else
                 (let source_name = name_of_module selected_source;
                      (remote_filenames, upload_targets) =
                         lookup_loop a (uploaded_files s1) image_url source_name (tvip a)
                           (Map.empty, [])
                  in if upload_targets \<noteq> [] then
                       (case call_get_image env selected_source image_url s1 of
                          ((None, file_type), s2) \<Rightarrow> (SysExit 1, logging ERROR s2)
                        | ((Some original_image_data, file_type), s2) \<Rightarrow>
                            (let s3 = save_debug_image a
                                        (''debug_'' @ source_name @ ''_original.jpg'') s2;
                                 s4 = logging INFO s3
                             in (case call_resize env original_image_data s4 of
                                   (image_data, s5) \<Rightarrow>
                                     ended
                                       (same_image_loop a env (Some image_data) file_type
                                          image_url remote_filenames source_name (tvip a)
                                          (save_debug_image a
                                             (''debug_'' @ source_name @ ''_resized.jpg'')
                                             s5)))))
                     else
                       ended
                         (same_image_loop a env None None image_url remote_filenames
                            source_name (tvip a) s1))))"

text \<open>Lines 216 to 257: the two ways to go through the televisions.\<close>

definition run_devices :: "args \<Rightarrow> 'w env \<Rightarrow> 'w state \<Rightarrow> exit \<times> 'w state" where
  "run_devices a env s =
     (if length (tvip a) > 1 \<and> use_same_image a then same_image_branch a env s
      else ended (different_images_loop a env (tvip a) s))"

text \<open>
  The script from line 46 on, started on a disk and a world. \<^verbatim>\<open>os.path.join\<close> puts a
  slash between the directory and the file name.
\<close>

definition initial_state :: "(string \<rightharpoonup> entry list) \<Rightarrow> 'w \<Rightarrow> 'w state" where
  "initial_state files w =
     \<lparr>uploaded_files = [], upload_list_path = [], disk = files, world = w, trace = []\<rparr>"

definition script :: "args \<Rightarrow> 'w env \<Rightarrow> (string \<rightharpoonup> entry list) \<Rightarrow> 'w \<Rightarrow> exit \<times> 'w state" where
  "script a env files w =
     (case ensure_upload_dir env (initial_state files w) of
        (DATA_DIR, s0) \<Rightarrow>
          (let path = DATA_DIR @ ''/uploaded_files.json'';
               s1 = s0\<lparr>upload_list_path := path,
                        uploaded_files := (case disk s0 path of Some l \<Rightarrow> l | None \<Rightarrow> [])\<rparr>
           in if sources a = [] then (SysExit 1, logging ERROR s1)
              else if tvip a \<noteq> [] then run_devices a env s1
              else (SysExit 1, logging ERROR s1)))"

subsection \<open>Notions used to state the properties\<close>

text \<open>The key of a record: image, source and device scope.\<close>

definition entry_key :: "entry \<Rightarrow> string option \<times> string option \<times> string option" where
  "entry_key entry = (e_file entry, e_source entry, e_tv_ip entry)"

definition unique_keys :: "entry list \<Rightarrow> bool" where
  "unique_keys files = distinct (map entry_key files)"

text \<open>
  The key that \<open>remove_uploaded_entry\<close> removes and \<open>process_tv\<close> writes for a television
  (lines 84 to 92 and 174 to 179), and the record written for a remote file name.
\<close>

definition record_key ::
  "args \<Rightarrow> string option \<Rightarrow> string option \<Rightarrow> string
     \<Rightarrow> string option \<times> string option \<times> string option" where
  "record_key a image_url source_name tv_ip =
     (image_url, source_name, if length (tvip a) > 1 then Some tv_ip else None)"

definition new_entry ::
  "args \<Rightarrow> string option \<Rightarrow> string option \<Rightarrow> string \<Rightarrow> string \<Rightarrow> entry" where
  "new_entry a image_url source_name tv_ip name =
     \<lparr>e_file = image_url, e_remote_filename = name,
      e_tv_ip = (if length (tvip a) > 1 then Some tv_ip else None),
      e_source = source_name\<rparr>"

text \<open>
  A list is well kept when no two of its records have the same key and every record has a
  non-empty remote file name; a state is, when its list and every upload list on its disk
  are.
\<close>

definition well_kept :: "entry list \<Rightarrow> bool" where
  "well_kept files \<longleftrightarrow>
     unique_keys files \<and> list_all (\<lambda>entry. e_remote_filename entry \<noteq> []) files"

definition state_ok :: "'w state \<Rightarrow> bool" where
  "state_ok s \<longleftrightarrow> well_kept (uploaded_files s) \<and> (\<forall>l\<in>ran (disk s). well_kept l)"


text \<open>The list without the records of a key.\<close>

definition without_key ::
  "string option \<times> string option \<times> string option \<Rightarrow> entry list \<Rightarrow> entry list" where
  "without_key k files = filter (\<lambda>entry. entry_key entry \<noteq> k) files"

text \<open>What the trace says: uploads, fetches, resizes, and the televisions asked, in order.\<close>

fun is_upload :: "event \<Rightarrow> bool" where
  "is_upload (Upload tv) = True"
| "is_upload ev = False"

fun is_fetch :: "event \<Rightarrow> bool" where
  "is_fetch (GetImage src url) = True"
| "is_fetch ev = False"

fun is_resize :: "event \<Rightarrow> bool" where
  "is_resize Resize = True"
| "is_resize ev = False"

definition uploads :: "event list \<Rightarrow> nat" where
  "uploads evs = length (filter is_upload evs)"

definition fetches :: "event list \<Rightarrow> nat" where
  "fetches evs = length (filter is_fetch evs)"

definition resizes :: "event list \<Rightarrow> nat" where
  "resizes evs = length (filter is_resize evs)"

fun asked :: "event list \<Rightarrow> string list" where
  "asked [] = []"
| "asked (ArtSupported tv # evs) = tv # asked evs"
| "asked (ev # evs) = asked evs"

text \<open>
  A world that always gives the same answers: whether the televisions support art mode,
  what selecting a name gives, what an upload gives, the image a source offers and its
  data, and which directories can be made. The televisions answer and the upload list can
  be written.
\<close>

definition fixed_env ::
  "bool \<Rightarrow> (string \<Rightarrow> select_result) \<Rightarrow> upload_result \<Rightarrow> string option
     \<Rightarrow> (bytes option \<times> string option) \<Rightarrow> (string \<Rightarrow> bool) \<Rightarrow> unit env" where
  "fixed_env art sel upl url img mk =
     \<lparr>tv_supported = (\<lambda>tv w. (SupportedReturned art, w)),
      tv_select_image = (\<lambda>tv name w. (sel name, w)),
      tv_upload = (\<lambda>tv data ft w. (upl, w)),
      src_get_image_url = (\<lambda>src w. (url, w)),
      src_get_image = (\<lambda>src u w. (img, w)),
      utils_resize_and_crop_image = (\<lambda>data. data),
      random_index = (\<lambda>w. (0, w)),
      os_makedirs = (\<lambda>path w. (mk path, w)),
      fs_write = (\<lambda>path w. (True, w))\<rparr>"

text \<open>The same world with an upload list that cannot be written.\<close>

definition unwritable :: "unit env \<Rightarrow> unit env" where
  "unwritable env = env\<lparr>fs_write := (\<lambda>path w. (False, w))\<rparr>"

text \<open>The same world with televisions that cannot be reached.\<close>

definition unreachable :: "unit env \<Rightarrow> unit env" where
  "unreachable env = env\<lparr>tv_supported := (\<lambda>tv w. (SupportedRaised, w))\<rparr>"

definition some_args :: "string \<Rightarrow> bool \<Rightarrow> bool \<Rightarrow> args" where
  "some_args ips same_image upload_all =
     \<lparr>arg_upload_all = upload_all, arg_tvip = Some ips, arg_same_image = same_image,
      arg_google_art = False, arg_bing_wallpapers = True, arg_media_folder = False,
      arg_debugimage = False\<rparr>"

text \<open>
  A process state that holds a given list and nothing else, and a record of the image
  \<^verbatim>\<open>u\<close> of the source \<^verbatim>\<open>bing_wallpapers\<close>.
\<close>

definition stored :: "entry list \<Rightarrow> unit state" where
  "stored files = (initial_state Map.empty ())\<lparr>uploaded_files := files\<rparr>"

definition bing_entry :: "string \<Rightarrow> string option \<Rightarrow> entry" where
  "bing_entry name scope =
     \<lparr>e_file = Some ''u'', e_remote_filename = name, e_tv_ip = scope,
      e_source = Some ''sources.bing_wallpapers''\<rparr>"

section \<open>Properties\<close>

subsection \<open>Reading the trace\<close>

lemmas step_defs = emit_def logging_def call_supported_def call_select_image_def call_upload_def
  call_get_image_url_def call_get_image_def call_resize_def random_choice_def call_makedirs_def
  write_upload_list_def save_debug_image_def

text \<open>The definitions a run on concrete inputs unfolds.\<close>

lemmas run_defs = script_def some_args_def fixed_env_def initial_state_def ensure_upload_dir_def
  PREFERRED_DIR_def FALLBACK_DIR_def sources_def tvip_def run_devices_def use_same_image_def
  same_image_branch_def get_image_for_tv_def get_remote_filename_def process_tv_def
  select_existing_def prepare_and_upload_def ensure_image_data_def upload_and_select_def
  remove_uploaded_entry_def source_lookup_def bing_entry_def stored_def unwritable_def
  unreachable_def

lemma uploads_append [simp]: "uploads (xs @ ys) = uploads xs + uploads ys"
  by (simp add: uploads_def)

lemma fetches_append [simp]: "fetches (xs @ ys) = fetches xs + fetches ys"
  by (simp add: fetches_def)

lemma resizes_append [simp]: "resizes (xs @ ys) = resizes xs + resizes ys"
  by (simp add: resizes_def)

lemma asked_append [simp]: "asked (xs @ ys) = asked xs @ asked ys"
  by (induction xs rule: asked.induct) simp_all

lemma uploads_Cons [simp]:
  "uploads (ev # evs) = (if is_upload ev then 1 else 0) + uploads evs" "uploads [] = 0"
  by (simp_all add: uploads_def)

lemma fetches_Cons [simp]:
  "fetches (ev # evs) = (if is_fetch ev then 1 else 0) + fetches evs" "fetches [] = 0"
  by (simp_all add: fetches_def)

lemma resizes_Cons [simp]:
  "resizes (ev # evs) = (if is_resize ev then 1 else 0) + resizes evs" "resizes [] = 0"
  by (simp_all add: resizes_def)

subsection \<open>The steps of process_tv\<close>

lemma write_upload_list_frame:
  "uploaded_files (snd (write_upload_list env s)) = uploaded_files s"
  "upload_list_path (snd (write_upload_list env s)) = upload_list_path s"
  "uploads (trace (snd (write_upload_list env s))) = uploads (trace s)"
  "fetches (trace (snd (write_upload_list env s))) = fetches (trace s)"
  "resizes (trace (snd (write_upload_list env s))) = resizes (trace s)"
  "asked (trace (snd (write_upload_list env s))) = asked (trace s)"
  by (auto simp add: write_upload_list_def emit_def split: prod.splits bool.splits)

lemma write_upload_list_disk:
  "disk (snd (write_upload_list env s)) =
     (if fst (write_upload_list env s) then (disk s)(upload_list_path s \<mapsto> uploaded_files s)
      else disk s)"
  by (auto simp add: write_upload_list_def emit_def split: prod.splits bool.splits)

lemma remove_uploaded_entry_files:
  "uploaded_files (snd (remove_uploaded_entry a env image_url source_name tv_ip s)) =
     without_key (record_key a image_url source_name tv_ip) (uploaded_files s)"
  by (auto simp add: remove_uploaded_entry_def without_key_def entry_key_def record_key_def
      write_upload_list_def emit_def Let_def split: prod.splits bool.splits)

lemma remove_uploaded_entry_obs:
  "uploads (trace (snd (remove_uploaded_entry a env image_url source_name tv_ip s))) =
     uploads (trace s)"
  "fetches (trace (snd (remove_uploaded_entry a env image_url source_name tv_ip s))) =
     fetches (trace s)"
  "resizes (trace (snd (remove_uploaded_entry a env image_url source_name tv_ip s))) =
     resizes (trace s)"
  "asked (trace (snd (remove_uploaded_entry a env image_url source_name tv_ip s))) =
     asked (trace s)"
  "upload_list_path (snd (remove_uploaded_entry a env image_url source_name tv_ip s)) =
     upload_list_path s"
  by (auto simp add: remove_uploaded_entry_def write_upload_list_def emit_def Let_def
      split: prod.splits bool.splits)

lemma remove_uploaded_entry_disk:
  "disk (snd (remove_uploaded_entry a env image_url source_name tv_ip s)) = disk s
   \<or> disk (snd (remove_uploaded_entry a env image_url source_name tv_ip s)) =
       (disk s)(upload_list_path s \<mapsto>
          uploaded_files (snd (remove_uploaded_entry a env image_url source_name tv_ip s)))"
  by (auto simp add: remove_uploaded_entry_def write_upload_list_def emit_def Let_def
      split: prod.splits bool.splits)

text \<open>
  Whether \<open>remove_uploaded_entry\<close> returns, and the world it leaves, depend on the list, the
  path and the world, not on the trace.
\<close>

lemma remove_uploaded_entry_trace:
  "remove_uploaded_entry a env image_url source_name tv_ip (s\<lparr>trace := t\<rparr>) =
     (case remove_uploaded_entry a env image_url source_name tv_ip s of
        (out, q) \<Rightarrow> (out, q\<lparr>trace := t @ drop (length (trace s)) (trace q)\<rparr>))"
  by (auto simp add: remove_uploaded_entry_def write_upload_list_def emit_def Let_def
      split: prod.splits bool.splits)

lemma ensure_image_data_files:
  "uploaded_files (snd (ensure_image_data a env image_data file_type source_name image_url s)) =
     uploaded_files s"
  by (auto simp add: ensure_image_data_def step_defs Let_def split: option.splits prod.splits)

lemma ensure_image_data_disk:
  "disk (snd (ensure_image_data a env image_data file_type source_name image_url s)) = disk s"
  "upload_list_path (snd (ensure_image_data a env image_data file_type source_name image_url s))
     = upload_list_path s"
  by (auto simp add: ensure_image_data_def step_defs Let_def split: option.splits prod.splits)

lemma ensure_image_data_obs:
  "uploads (trace (snd (ensure_image_data a env image_data file_type source_name image_url s))) =
     uploads (trace s)"
  "asked (trace (snd (ensure_image_data a env image_data file_type source_name image_url s))) =
     asked (trace s)"
  by (auto simp add: ensure_image_data_def step_defs Let_def split: option.splits prod.splits)


text \<open>
  What \<open>ensure_image_data\<close> returns, and the world it leaves, depend on the world it starts
  in and on nothing else of the state.
\<close>

lemma ensure_image_data_frame:
  "ensure_image_data a env image_data file_type source_name image_url s =
     (case ensure_image_data a env image_data file_type source_name image_url
             (initial_state Map.empty (world s)) of
        (r, b) \<Rightarrow> (r, s\<lparr>world := world b, trace := trace s @ trace b\<rparr>))"
  by (auto simp add: ensure_image_data_def step_defs initial_state_def Let_def
      split: option.splits prod.splits)

lemma ensure_image_data_same_world:
  assumes "world s = world t"
  shows "fst (ensure_image_data a env image_data file_type source_name image_url s) =
         fst (ensure_image_data a env image_data file_type source_name image_url t)"
    and "world (snd (ensure_image_data a env image_data file_type source_name image_url s)) =
         world (snd (ensure_image_data a env image_data file_type source_name image_url t))"
  using assms
  by (simp_all add:
      ensure_image_data_frame [of a env image_data file_type source_name image_url s]
      ensure_image_data_frame [of a env image_data file_type source_name image_url t]
      split: prod.splits)

lemma upload_and_select_files:
  "uploaded_files (upload_and_select a env tv_ip d ft image_url source_name s) =
     uploaded_files s @
       (case tv_upload env tv_ip d ft (world s) of
          (UploadReturned (Some name), w1) \<Rightarrow>
            (case tv_select_image env tv_ip name w1 of
               (SelectOk, w2) \<Rightarrow> [new_entry a image_url source_name tv_ip name]
             | (r, w2) \<Rightarrow> [])
        | (r, w1) \<Rightarrow> [])"
  by (auto simp add: upload_and_select_def new_entry_def step_defs Let_def
      split: option.splits prod.splits upload_result.splits select_result.splits bool.splits)

lemma upload_and_select_files_cases:
  "uploaded_files (upload_and_select a env tv_ip d ft image_url source_name s) = uploaded_files s
   \<or> (\<exists>name. uploaded_files (upload_and_select a env tv_ip d ft image_url source_name s) =
        uploaded_files s @ [new_entry a image_url source_name tv_ip name])"
  by (auto simp add: upload_and_select_files
      split: option.splits prod.splits upload_result.splits select_result.splits)

lemma upload_and_select_obs:
  "uploads (trace (upload_and_select a env tv_ip d ft image_url source_name s)) =
     uploads (trace s) + 1"
  "fetches (trace (upload_and_select a env tv_ip d ft image_url source_name s)) =
     fetches (trace s)"
  "resizes (trace (upload_and_select a env tv_ip d ft image_url source_name s)) =
     resizes (trace s)"
  "asked (trace (upload_and_select a env tv_ip d ft image_url source_name s)) = asked (trace s)"
  "upload_list_path (upload_and_select a env tv_ip d ft image_url source_name s) =
     upload_list_path s"
  by (auto simp add: upload_and_select_def step_defs Let_def
      split: option.splits prod.splits upload_result.splits select_result.splits bool.splits)

lemma upload_and_select_disk:
  "disk (upload_and_select a env tv_ip d ft image_url source_name s) = disk s
   \<or> disk (upload_and_select a env tv_ip d ft image_url source_name s)
       = (disk s)(upload_list_path s \<mapsto>
            uploaded_files (upload_and_select a env tv_ip d ft image_url source_name s))"
  by (auto simp add: upload_and_select_def step_defs Let_def
      split: option.splits prod.splits upload_result.splits select_result.splits bool.splits)

lemma select_existing_skip:
  "remote_filename = None \<or> arg_upload_all a \<Longrightarrow>
   select_existing a env tv_ip image_url remote_filename source_name nu s =
     (Returned, (False, nu, remote_filename), s)"
  by (auto simp add: select_existing_def split: option.splits)

lemma select_existing_ok:
  "\<not> arg_upload_all a \<Longrightarrow> tv_select_image env tv_ip name (world s) = (SelectOk, w) \<Longrightarrow>
   select_existing a env tv_ip image_url (Some name) source_name nu s =
     (Returned, (True, nu, Some name),
      s\<lparr>world := w, trace := trace s @ [Log INFO, SelectImage tv_ip name]\<rparr>)"
  by (simp add: select_existing_def step_defs)

lemma select_existing_failed:
  "\<not> arg_upload_all a \<Longrightarrow> tv_select_image env tv_ip name (world s) = (r, w) \<Longrightarrow>
   r \<noteq> SelectOk \<Longrightarrow>
   select_existing a env tv_ip image_url (Some name) source_name nu s =
     (case remove_uploaded_entry a env image_url source_name tv_ip
             (s\<lparr>world := w,
                trace := trace s @ [Log INFO, SelectImage tv_ip name, Log WARNING]\<rparr>) of
        (out, s2) \<Rightarrow> (out, (False, True, None), s2))"
  by (cases r) (simp_all add: select_existing_def call_select_image_def logging_def emit_def)

subsection \<open>The five ways through process_tv\<close>

lemma process_tv_unreachable:
  "tv_supported env tv_ip (world s) = (SupportedRaised, w1) \<Longrightarrow>
   process_tv a env tv_ip image_data file_type image_url remote_filename source_name s =
     (Raised, s\<lparr>world := w1, trace := trace s @ [ArtSupported tv_ip]\<rparr>)"
  by (simp add: process_tv_def step_defs)

lemma process_tv_unsupported:
  "tv_supported env tv_ip (world s) = (SupportedReturned False, w1) \<Longrightarrow>
   process_tv a env tv_ip image_data file_type image_url remote_filename source_name s =
     (Returned, s\<lparr>world := w1, trace := trace s @ [ArtSupported tv_ip, Log WARNING]\<rparr>)"
  by (simp add: process_tv_def step_defs)

lemma process_tv_selected:
  "tv_supported env tv_ip (world s) = (SupportedReturned True, w1) \<Longrightarrow>
   \<not> arg_upload_all a \<Longrightarrow>
   tv_select_image env tv_ip name w1 = (SelectOk, w2) \<Longrightarrow>
   process_tv a env tv_ip image_data file_type image_url (Some name) source_name s =
     (Returned,
      s\<lparr>world := w2,
         trace := trace s @ [ArtSupported tv_ip, Log INFO, SelectImage tv_ip name]\<rparr>)"
  by (simp add: process_tv_def call_supported_def emit_def select_existing_ok)

lemma process_tv_stale:
  "tv_supported env tv_ip (world s) = (SupportedReturned True, w1) \<Longrightarrow>
   \<not> arg_upload_all a \<Longrightarrow>
   tv_select_image env tv_ip name w1 = (r, w2) \<Longrightarrow> r \<noteq> SelectOk \<Longrightarrow>
   process_tv a env tv_ip image_data file_type image_url (Some name) source_name s =
     (case remove_uploaded_entry a env image_url source_name tv_ip
             (s\<lparr>world := w2,
                trace := trace s @
                  [ArtSupported tv_ip, Log INFO, SelectImage tv_ip name, Log WARNING]\<rparr>) of
        (Raised, s2) \<Rightarrow> (Raised, s2)
      | (Returned, s2) \<Rightarrow>
          prepare_and_upload a env tv_ip image_data file_type image_url None source_name s2)"
  by (simp add: process_tv_def call_supported_def emit_def select_existing_failed
      split: prod.splits outcome.splits)

lemma process_tv_upload:
  "tv_supported env tv_ip (world s) = (SupportedReturned True, w1) \<Longrightarrow>
   remote_filename = None \<or> arg_upload_all a \<Longrightarrow>
   process_tv a env tv_ip image_data file_type image_url remote_filename source_name s =
     prepare_and_upload a env tv_ip image_data file_type image_url remote_filename source_name
       (s\<lparr>world := w1, trace := trace s @ [ArtSupported tv_ip]\<rparr>)"
  by (auto simp add: process_tv_def call_supported_def emit_def select_existing_skip)

subsection \<open>Preparing and uploading\<close>

lemma prepare_and_upload_failed:
  "ensure_image_data a env image_data file_type source_name image_url s = ((d, ft), s1) \<Longrightarrow>
   d = None \<or> ft = None \<Longrightarrow>
   prepare_and_upload a env tv_ip image_data file_type image_url remote_filename source_name s =
     (Returned, logging ERROR s1)"
  by (auto simp add: prepare_and_upload_def split: option.splits)

lemma prepare_and_upload_prepared:
  "ensure_image_data a env image_data file_type source_name image_url s
     = ((Some d, Some ft), s1) \<Longrightarrow>
   prepare_and_upload a env tv_ip image_data file_type image_url remote_filename source_name s =
     (if remote_filename \<noteq> None then
        (case remove_uploaded_entry a env image_url source_name tv_ip s1 of
           (Raised, s2) \<Rightarrow> (Raised, s2)
         | (Returned, s2) \<Rightarrow>
             (Returned, upload_and_select a env tv_ip d ft image_url source_name s2))
      else (Returned, upload_and_select a env tv_ip d ft image_url source_name s1))"
  by (simp add: prepare_and_upload_def)

lemma prepare_and_upload_files:
  "uploaded_files (snd (prepare_and_upload a env tv_ip image_data file_type image_url
                          remote_filename source_name s)) = uploaded_files s
   \<or> (remote_filename \<noteq> None \<and>
      uploaded_files (snd (prepare_and_upload a env tv_ip image_data file_type image_url
                             remote_filename source_name s))
        = without_key (record_key a image_url source_name tv_ip) (uploaded_files s))
   \<or> (remote_filename \<noteq> None \<and>
      (\<exists>name. uploaded_files (snd (prepare_and_upload a env tv_ip image_data file_type
                                   image_url remote_filename source_name s))
        = without_key (record_key a image_url source_name tv_ip) (uploaded_files s)
          @ [new_entry a image_url source_name tv_ip name]))
   \<or> (remote_filename = None \<and>
      (\<exists>name. uploaded_files (snd (prepare_and_upload a env tv_ip image_data file_type
                                   image_url remote_filename source_name s))
        = uploaded_files s @ [new_entry a image_url source_name tv_ip name]))"
proof -
  obtain d ft s1 where
    e: "ensure_image_data a env image_data file_type source_name image_url s = ((d, ft), s1)"
    by (metis surj_pair)
  have f1: "uploaded_files s1 = uploaded_files s"
    using ensure_image_data_files [of a env image_data file_type source_name image_url s] e
    by simp
  show ?thesis
  proof (cases "d = None \<or> ft = None")
    case True
    then show ?thesis
      using prepare_and_upload_failed [OF e, of tv_ip remote_filename] f1
      by (simp add: logging_def emit_def)
  next
    case False
    then obtain d' ft' where "d = Some d'" "ft = Some ft'" by auto
    with e have e': "ensure_image_data a env image_data file_type source_name image_url s
        = ((Some d', Some ft'), s1)"
      by simp
    show ?thesis
    proof (cases remote_filename)
      case None
      then show ?thesis
        using upload_and_select_files_cases [of a env tv_ip d' ft' image_url source_name s1]
        unfolding prepare_and_upload_prepared [OF e', of tv_ip remote_filename]
        by (auto simp add: f1)
    next
      case (Some name)
      obtain out s2 where
        r: "remove_uploaded_entry a env image_url source_name tv_ip s1 = (out, s2)"
        by (metis surj_pair)
      have f2: "uploaded_files s2
          = without_key (record_key a image_url source_name tv_ip) (uploaded_files s)"
        using remove_uploaded_entry_files [of a env image_url source_name tv_ip s1] r f1
        by simp
      show ?thesis
        using upload_and_select_files_cases [of a env tv_ip d' ft' image_url source_name s2]
        unfolding prepare_and_upload_prepared [OF e', of tv_ip remote_filename]
        by (cases out) (auto simp add: Some r f2)
    qed
  qed
qed



subsection \<open>process_tv in general\<close>

text \<open>The five ways, as a rule for case analysis.\<close>

lemma process_tv_cases [case_names unreachable unsupported selected stale upload]:
  assumes "\<And>w1. tv_supported env tv_ip (world s) = (SupportedRaised, w1) \<Longrightarrow> P"
      and "\<And>w1. tv_supported env tv_ip (world s) = (SupportedReturned False, w1) \<Longrightarrow> P"
      and "\<And>w1 name w2. tv_supported env tv_ip (world s) = (SupportedReturned True, w1) \<Longrightarrow>
             \<not> arg_upload_all a \<Longrightarrow> remote_filename = Some name \<Longrightarrow>
             tv_select_image env tv_ip name w1 = (SelectOk, w2) \<Longrightarrow> P"
      and "\<And>w1 name r w2. tv_supported env tv_ip (world s) = (SupportedReturned True, w1) \<Longrightarrow>
             \<not> arg_upload_all a \<Longrightarrow> remote_filename = Some name \<Longrightarrow>
             tv_select_image env tv_ip name w1 = (r, w2) \<Longrightarrow> r \<noteq> SelectOk \<Longrightarrow> P"
      and "\<And>w1. tv_supported env tv_ip (world s) = (SupportedReturned True, w1) \<Longrightarrow>
             remote_filename = None \<or> arg_upload_all a \<Longrightarrow> P"
  shows P
proof -
  obtain b w1 where sup: "tv_supported env tv_ip (world s) = (b, w1)" by (metis surj_pair)
  show P
  proof (cases b)
    case SupportedRaised
    with sup assms(1) show P by simp
  next
    case (SupportedReturned art)
    show P
    proof (cases art)
      case False
      with sup SupportedReturned assms(2) show P by simp
    next
      case True
      show P
      proof (cases "remote_filename = None \<or> arg_upload_all a")
        case True
        with sup SupportedReturned \<open>art\<close> assms(5) show P by simp
      next
        case False
        then obtain name where n: "remote_filename = Some name" "\<not> arg_upload_all a" by auto
        obtain r w2 where sel: "tv_select_image env tv_ip name w1 = (r, w2)"
          by (metis surj_pair)
        show P
          using assms(3) [of w1 name w2] assms(4) [of w1 name r w2] sup SupportedReturned
            \<open>art\<close> n sel
          by (cases "r = SelectOk") simp_all
      qed
    qed
  qed
qed

lemma process_tv_files:
  "uploaded_files (snd (process_tv a env tv_ip image_data file_type image_url remote_filename
                          source_name s)) = uploaded_files s
   \<or> (remote_filename \<noteq> None \<and>
      uploaded_files (snd (process_tv a env tv_ip image_data file_type image_url
                             remote_filename source_name s))
        = without_key (record_key a image_url source_name tv_ip) (uploaded_files s))
   \<or> (remote_filename \<noteq> None \<and>
      (\<exists>name. uploaded_files (snd (process_tv a env tv_ip image_data file_type image_url
                                   remote_filename source_name s))
        = without_key (record_key a image_url source_name tv_ip) (uploaded_files s)
          @ [new_entry a image_url source_name tv_ip name]))
   \<or> (remote_filename = None \<and>
      (\<exists>name. uploaded_files (snd (process_tv a env tv_ip image_data file_type image_url
                                   remote_filename source_name s))
        = uploaded_files s @ [new_entry a image_url source_name tv_ip name]))"
proof (cases rule: process_tv_cases
    [where env = env and tv_ip = tv_ip and s = s and a = a
       and remote_filename = remote_filename])
  case (unreachable w1)
  then show ?thesis by (simp add: process_tv_unreachable)
next
  case (unsupported w1)
  then show ?thesis by (simp add: process_tv_unsupported)
next
  case (selected w1 name w2)
  then show ?thesis by (simp add: process_tv_selected)
next
  case (stale w1 name r w2)
  let ?t = "s\<lparr>world := w2,
             trace := trace s @
               [ArtSupported tv_ip, Log INFO, SelectImage tv_ip name, Log WARNING]\<rparr>"
  obtain out s2 where
    r: "remove_uploaded_entry a env image_url source_name tv_ip ?t = (out, s2)"
    by (metis surj_pair)
  have f2: "uploaded_files s2
      = without_key (record_key a image_url source_name tv_ip) (uploaded_files s)"
    using remove_uploaded_entry_files [of a env image_url source_name tv_ip ?t] r by simp
  show ?thesis
    using prepare_and_upload_files
      [of a env tv_ip image_data file_type image_url None source_name s2]
    unfolding stale(3) process_tv_stale [OF stale(1,2,4,5)]
    by (cases out) (auto simp add: r f2)
next
  case (upload w1)
  show ?thesis
    using prepare_and_upload_files
      [of a env tv_ip image_data file_type image_url remote_filename source_name
        "s\<lparr>world := w1, trace := trace s @ [ArtSupported tv_ip]\<rparr>"]
    unfolding process_tv_upload [OF upload]
    by auto
qed



subsection \<open>A stored image that cannot be selected\<close>

text \<open>
  After the failed select, \<open>remove_uploaded_entry\<close> runs in the state of line 144 or 149. It
  ends as it does in the state before the call of \<open>process_tv\<close> put into the world the select
  has left, because the two states differ in the trace only.
\<close>

lemma process_tv_stale_removed:
  assumes "remove_uploaded_entry a env image_url source_name tv_ip (s\<lparr>world := w2\<rparr>) = (out, q)"
  obtains s2 where
    "remove_uploaded_entry a env image_url source_name tv_ip
       (s\<lparr>world := w2,
          trace := trace s @
            [ArtSupported tv_ip, Log INFO, SelectImage tv_ip name, Log WARNING]\<rparr>)
     = (out, s2)"
    "world s2 = world q"
    "uploaded_files s2 = without_key (record_key a image_url source_name tv_ip) (uploaded_files s)"
    "uploads (trace s2) = uploads (trace s)"
proof -
  let ?T = "trace s @ [ArtSupported tv_ip, Log INFO, SelectImage tv_ip name, Log WARNING]"
  let ?t = "s\<lparr>world := w2, trace := ?T\<rparr>"
  let ?s2 = "q\<lparr>trace := ?T @ drop (length (trace (s\<lparr>world := w2\<rparr>))) (trace q)\<rparr>"
  have "?t = (s\<lparr>world := w2\<rparr>)\<lparr>trace := ?T\<rparr>" by simp
  then have r: "remove_uploaded_entry a env image_url source_name tv_ip ?t = (out, ?s2)"
    using remove_uploaded_entry_trace
        [where a = a and env = env and image_url = image_url and source_name = source_name
           and tv_ip = tv_ip and s = "s\<lparr>world := w2\<rparr>" and t = ?T]
      assms
    by simp
  have f: "uploaded_files ?s2
      = without_key (record_key a image_url source_name tv_ip) (uploaded_files s)"
    using remove_uploaded_entry_files [of a env image_url source_name tv_ip ?t] r by simp
  have u: "uploads (trace ?s2) = uploads (trace s)"
    using remove_uploaded_entry_obs(1) [of a env image_url source_name tv_ip ?t] r by simp
  show thesis
    using that [of ?s2] r f u by simp
qed

lemma without_key_no_key: "\<forall>entry\<in>set (without_key k files). entry_key entry \<noteq> k"
  by (simp add: without_key_def)

lemma without_key_changes:
  "\<exists>entry\<in>set files. entry_key entry = k \<Longrightarrow> without_key k files \<noteq> files"
  by (metis without_key_no_key)

subsection \<open>Keys, lookups and the records process_tv touches\<close>

lemma get_remote_filename_None:
  "get_remote_filename a files image_url name tv_ip = None \<longleftrightarrow>
     (\<forall>entry\<in>set files. entry_key entry \<noteq> record_key a image_url (Some name) tv_ip)"
proof -
  let ?P = "\<lambda>entry. e_file entry = image_url \<and> e_source entry = Some name
              \<and> e_tv_ip entry = (if length (tvip a) > 1 then Some tv_ip else None)"
  have "get_remote_filename a files image_url name tv_ip = None
          \<longleftrightarrow> filter ?P (rev files) = []"
    by (simp add: get_remote_filename_def split: list.splits)
  also have "\<dots> \<longleftrightarrow> (\<forall>entry\<in>set files. \<not> ?P entry)"
    by (simp add: filter_empty_conv)
  also have "\<dots> \<longleftrightarrow>
      (\<forall>entry\<in>set files. entry_key entry \<noteq> record_key a image_url (Some name) tv_ip)"
    by (simp add: entry_key_def record_key_def)
  finally show ?thesis .
qed

lemma get_remote_filename_Some:
  assumes "get_remote_filename a files image_url name tv_ip = Some r"
  shows "\<exists>entry\<in>set files. entry_key entry = record_key a image_url (Some name) tv_ip
           \<and> e_remote_filename entry = r"
proof -
  let ?P = "\<lambda>entry. e_file entry = image_url \<and> e_source entry = Some name
              \<and> e_tv_ip entry = (if length (tvip a) > 1 then Some tv_ip else None)"
  obtain entry rest where f: "filter ?P (rev files) = entry # rest" "e_remote_filename entry = r"
    using assms by (auto simp add: get_remote_filename_def split: list.splits)
  have "entry \<in> set (filter ?P (rev files))" using f(1) by simp
  then have "entry \<in> set files" "?P entry" by simp_all
  then show ?thesis using f(2) by (auto simp add: entry_key_def record_key_def)
qed

lemma scope_single:
  "tv_ip \<in> set (tvip a) \<Longrightarrow>
   (if length (tvip a) > 1 then Some tv_ip else None)
     = (if length (tvip a) = 1 then None else Some tv_ip)"
  by (cases "tvip a") auto

lemma in_without_key:
  "entry \<in> set (without_key k files) \<longleftrightarrow> entry \<in> set files \<and> entry_key entry \<noteq> k"
  by (simp add: without_key_def)

lemma entry_key_new_entry:
  "entry_key (new_entry a image_url source_name tv_ip name)
     = record_key a image_url source_name tv_ip"
  by (simp add: entry_key_def new_entry_def record_key_def)

lemma process_tv_written:
  "entry \<in> set (uploaded_files (snd (process_tv a env tv_ip image_data file_type image_url
                                       remote_filename source_name s))) \<Longrightarrow>
   entry \<notin> set (uploaded_files s) \<Longrightarrow>
   entry_key entry = record_key a image_url source_name tv_ip"
  using process_tv_files
    [of a env tv_ip image_data file_type image_url remote_filename source_name s]
  by (auto simp add: in_without_key entry_key_new_entry)

lemma process_tv_removed:
  "entry \<in> set (uploaded_files s) \<Longrightarrow>
   entry \<notin> set (uploaded_files (snd (process_tv a env tv_ip image_data file_type image_url
                                       remote_filename source_name s))) \<Longrightarrow>
   entry_key entry = record_key a image_url source_name tv_ip"
  using process_tv_files
    [of a env tv_ip image_data file_type image_url remote_filename source_name s]
  by (auto simp add: in_without_key entry_key_new_entry)

subsection \<open>The televisions a run asks\<close>

lemma get_image_for_tv_frame:
  "uploaded_files (snd (get_image_for_tv a env tv_ip s)) = uploaded_files s"
  "disk (snd (get_image_for_tv a env tv_ip s)) = disk s"
  "upload_list_path (snd (get_image_for_tv a env tv_ip s)) = upload_list_path s"
  "asked (trace (snd (get_image_for_tv a env tv_ip s))) = asked (trace s)"
  "uploads (trace (snd (get_image_for_tv a env tv_ip s))) = uploads (trace s)"
  by (auto simp add: get_image_for_tv_def step_defs Let_def split: option.splits prod.splits)



lemma ended_fst:
  "fst (ended r) = Finished \<longleftrightarrow> fst r = Returned"
  "fst (ended r) = Uncaught \<longleftrightarrow> fst r = Raised"
  "fst (ended r) \<noteq> SysExit n"
  "snd (ended r) = snd r"
  by (cases r; cases "fst r"; simp)+




subsection \<open>Runs in which nothing raises\<close>








subsection \<open>The same image for every television\<close>

lemma lookup_loop_result:
  "lookup_loop a files image_url source_name tvs (m, ts) =
     ((\<lambda>tv. if tv \<in> set tvs \<and> truthy (get_remote_filename a files image_url source_name tv)
            then get_remote_filename a files image_url source_name tv else m tv),
      ts @ filter (\<lambda>tv. \<not> truthy (get_remote_filename a files image_url source_name tv)) tvs)"
proof (induction tvs arbitrary: m ts)
  case Nil
  show ?case by simp
next
  case (Cons tv tvs)
  show ?case
  proof (cases "truthy (get_remote_filename a files image_url source_name tv)")
    case True
    then obtain r where r: "get_remote_filename a files image_url source_name tv = Some r"
      by (cases "get_remote_filename a files image_url source_name tv") simp_all
    show ?thesis
      using True by (auto simp add: Cons.IH r Let_def)
  next
    case False
    then show ?thesis
      by (auto simp add: Cons.IH Let_def)
  qed
qed








subsection \<open>A television without art mode\<close>

text \<open>
  Claim C7. When the television reports that it does not support art mode, \<open>process_tv\<close>
  asks it, logs one warning (not an error) and returns: there is no fetch, no upload and no
  select, and the list \<open>uploaded_files\<close> and the files on disk are as they were, whatever
  the list holds and whatever \<open>remote_filename\<close> was found for the television.
\<close>

theorem capability_skip:
  assumes "tv_supported env tv_ip (world s) = (SupportedReturned False, w1)"
  shows "fst (process_tv a env tv_ip image_data file_type image_url remote_filename
                source_name s) = Returned
       \<and> uploaded_files
           (snd (process_tv a env tv_ip image_data file_type image_url remote_filename
                   source_name s))
           = uploaded_files s
       \<and> disk (snd (process_tv a env tv_ip image_data file_type image_url remote_filename
                      source_name s))
           = disk s
       \<and> trace (snd (process_tv a env tv_ip image_data file_type image_url remote_filename
                       source_name s))
           = trace s @ [ArtSupported tv_ip, Log WARNING]"
  by (simp add: process_tv_unsupported [OF assms])

theorem capability_skip_witness:
  "uploaded_files
     (snd (process_tv (some_args ''10.0.0.1'' False True)
        (fixed_env False (\<lambda>n. SelectOk) (UploadReturned (Some ''new'')) (Some ''u'')
           (Some [1], Some ''JPEG'') (\<lambda>p. True))
        ''10.0.0.1'' None None (Some ''u'') (Some ''old'') (Some ''sources.bing_wallpapers'')
        ((initial_state Map.empty ())
           \<lparr>uploaded_files :=
              [\<lparr>e_file = Some ''u'', e_remote_filename = ''old'', e_tv_ip = None,
                e_source = Some ''sources.bing_wallpapers''\<rparr>]\<rparr>)))
   = [\<lparr>e_file = Some ''u'', e_remote_filename = ''old'', e_tv_ip = None,
       e_source = Some ''sources.bing_wallpapers''\<rparr>]
   \<and> trace
     (snd (process_tv (some_args ''10.0.0.1'' False True)
        (fixed_env False (\<lambda>n. SelectOk) (UploadReturned (Some ''new'')) (Some ''u'')
           (Some [1], Some ''JPEG'') (\<lambda>p. True))
        ''10.0.0.1'' None None (Some ''u'') (Some ''old'') (Some ''sources.bing_wallpapers'')
        ((initial_state Map.empty ())
           \<lparr>uploaded_files :=
              [\<lparr>e_file = Some ''u'', e_remote_filename = ''old'', e_tv_ip = None,
                e_source = Some ''sources.bing_wallpapers''\<rparr>]\<rparr>)))
   = [ArtSupported ''10.0.0.1'', Log WARNING]"
  using capability_skip
    [of "fixed_env False (\<lambda>n. SelectOk) (UploadReturned (Some ''new'')) (Some ''u'')
           (Some [1], Some ''JPEG'') (\<lambda>p. True)"
        "''10.0.0.1''"
        "(initial_state Map.empty ())
           \<lparr>uploaded_files :=
              [\<lparr>e_file = Some ''u'', e_remote_filename = ''old'', e_tv_ip = None,
                e_source = Some ''sources.bing_wallpapers''\<rparr>]\<rparr>"
        "()" "some_args ''10.0.0.1'' False True" None None "Some ''u''" "Some ''old''"
        "Some ''sources.bing_wallpapers''"]
  by (simp add: fixed_env_def initial_state_def)

subsection \<open>Runs that find every image stored\<close>

lemma get_image_for_tv_stored:
  assumes "random_index env (world s) = (i, w0)"
      and "src = sources a ! (i mod length (sources a))"
      and "src_get_image_url env src w0 = (url, w1)"
      and "truthy (get_remote_filename a (uploaded_files s) url (name_of_module src) tv_ip)"
  shows "get_image_for_tv a env tv_ip s =
           ((None, None, url,
             get_remote_filename a (uploaded_files s) url (name_of_module src) tv_ip,
             Some (name_of_module src)),
            s\<lparr>world := w1, trace := trace s @ [RandomChoice, Log INFO, GetImageUrl src]\<rparr>)"
  using assms(1,3,4) unfolding assms(2)
  by (simp add: get_image_for_tv_def random_choice_def call_get_image_url_def logging_def
      emit_def Let_def)

lemma random_source_configured:
  "sources a \<noteq> [] \<Longrightarrow> sources a ! (i mod length (sources a)) \<in> set (sources a)"
  by simp


lemma same_image_branch_no_url:
  assumes "random_index env (world s) = (i, w0)"
      and "src_get_image_url env (sources a ! (i mod length (sources a))) w0 = (url, w1)"
      and "\<not> truthy url"
  shows "same_image_branch a env s =
           (SysExit 1,
            s\<lparr>world := w1,
               trace := trace s @
                 [RandomChoice, Log INFO, GetImageUrl (sources a ! (i mod length (sources a))),
                  Log ERROR]\<rparr>)"
  using assms
  by (simp add: same_image_branch_def random_choice_def call_get_image_url_def logging_def
      emit_def)



subsection \<open>Lists that stay well kept\<close>

lemma well_kept_Nil: "well_kept []"
  by (simp add: well_kept_def unique_keys_def)

lemma well_kept_without_key: "well_kept files \<Longrightarrow> well_kept (without_key k files)"
  by (simp add: well_kept_def unique_keys_def without_key_def distinct_map_filter list_all_iff)

lemma well_kept_append:
  assumes "well_kept files" and "name \<noteq> []"
      and "\<forall>entry\<in>set files. entry_key entry \<noteq> record_key a image_url source_name tv_ip"
  shows "well_kept (files @ [new_entry a image_url source_name tv_ip name])"
  using assms
  by (auto simp add: well_kept_def unique_keys_def entry_key_new_entry list_all_iff)
    (simp add: new_entry_def)

lemma well_kept_names:
  "well_kept files \<Longrightarrow> entry \<in> set files \<Longrightarrow> e_remote_filename entry \<noteq> []"
  by (simp add: well_kept_def list_all_iff)

lemma state_ok_trace [simp]: "state_ok (s\<lparr>trace := t\<rparr>) = state_ok s"
  by (simp add: state_ok_def)

lemma state_ok_world [simp]: "state_ok (s\<lparr>world := w\<rparr>) = state_ok s"
  by (simp add: state_ok_def)

lemma ran_upd_cases: "l \<in> ran (m(p \<mapsto> x)) \<Longrightarrow> l = x \<or> l \<in> ran m"
  by (auto simp add: ran_def split: if_splits)

lemma state_ok_step:
  assumes "state_ok s" and "well_kept (uploaded_files t)"
      and "disk t = disk s \<or> disk t = (disk s)(p \<mapsto> uploaded_files t)"
  shows "state_ok t"
proof -
  have "well_kept l" if "l \<in> ran (disk t)" for l
  proof -
    have "l \<in> ran (disk s) \<or> l = uploaded_files t"
      using that assms(3) ran_upd_cases [of l "disk s" p "uploaded_files t"] by metis
    then show ?thesis using assms(1,2) by (auto simp add: state_ok_def)
  qed
  then show ?thesis using assms(2) by (simp add: state_ok_def)
qed

lemma state_ok_files:
  "state_ok s \<Longrightarrow> well_kept files \<Longrightarrow> state_ok (s\<lparr>uploaded_files := files\<rparr>)"
  by (simp add: state_ok_def)

lemma state_ok_remove:
  assumes "state_ok s"
  shows "state_ok (snd (remove_uploaded_entry a env image_url source_name tv_ip s))"
proof (rule state_ok_step [OF assms])
  show "well_kept (uploaded_files
      (snd (remove_uploaded_entry a env image_url source_name tv_ip s)))"
    using assms by (simp add: remove_uploaded_entry_files state_ok_def well_kept_without_key)
  show "disk (snd (remove_uploaded_entry a env image_url source_name tv_ip s)) = disk s
      \<or> disk (snd (remove_uploaded_entry a env image_url source_name tv_ip s)) =
          (disk s)(upload_list_path s \<mapsto>
             uploaded_files (snd (remove_uploaded_entry a env image_url source_name tv_ip s)))"
    by (rule remove_uploaded_entry_disk)
qed

lemma state_ok_ensure_image_data:
  "state_ok s \<Longrightarrow>
   state_ok (snd (ensure_image_data a env image_data file_type source_name image_url s))"
  by (simp add: state_ok_def ensure_image_data_disk ensure_image_data_files)

lemma well_kept_upload_and_select:
  assumes "well_kept (uploaded_files s)"
      and "\<forall>entry\<in>set (uploaded_files s).
             entry_key entry \<noteq> record_key a image_url source_name tv_ip"
      and "\<forall>tv d ft w. fst (tv_upload env tv d ft w) \<noteq> UploadReturned (Some [])"
  shows "well_kept (uploaded_files (upload_and_select a env tv_ip d ft image_url source_name s))"
proof -
  obtain u w1 where up: "tv_upload env tv_ip d ft (world s) = (u, w1)" by (metis surj_pair)
  have ne: "u \<noteq> UploadReturned (Some [])" using assms(3) up by (metis fst_conv)
  have "uploaded_files (upload_and_select a env tv_ip d ft image_url source_name s)
          = uploaded_files s
      \<or> (\<exists>name. name \<noteq> [] \<and>
            uploaded_files (upload_and_select a env tv_ip d ft image_url source_name s)
              = uploaded_files s @ [new_entry a image_url source_name tv_ip name])"
    using up ne
    by (auto simp add: upload_and_select_files
        split: option.splits prod.splits upload_result.splits select_result.splits)
  then show ?thesis
    using assms(1) well_kept_append [OF assms(1) _ assms(2)] by auto
qed

lemma state_ok_upload_and_select:
  assumes "state_ok s"
      and "\<forall>entry\<in>set (uploaded_files s).
             entry_key entry \<noteq> record_key a image_url source_name tv_ip"
      and "\<forall>tv d ft w. fst (tv_upload env tv d ft w) \<noteq> UploadReturned (Some [])"
  shows "state_ok (upload_and_select a env tv_ip d ft image_url source_name s)"
proof (rule state_ok_step [OF assms(1)])
  show "well_kept (uploaded_files
      (upload_and_select a env tv_ip d ft image_url source_name s))"
    using well_kept_upload_and_select [OF _ assms(2,3)] assms(1) by (simp add: state_ok_def)
  show "disk (upload_and_select a env tv_ip d ft image_url source_name s) = disk s
      \<or> disk (upload_and_select a env tv_ip d ft image_url source_name s)
          = (disk s)(upload_list_path s \<mapsto>
               uploaded_files (upload_and_select a env tv_ip d ft image_url source_name s))"
    by (rule upload_and_select_disk)
qed

lemma state_ok_same:
  "state_ok s \<Longrightarrow> uploaded_files t = uploaded_files s \<Longrightarrow> disk t = disk s \<Longrightarrow> state_ok t"
  by (simp add: state_ok_def)

lemma ensure_image_data_no_source:
  "image_data = None \<Longrightarrow> source_lookup source_name = None \<Longrightarrow>
   fst (ensure_image_data a env image_data file_type source_name image_url s) = (None, None)"
  by (simp add: ensure_image_data_def)

lemma state_ok_prepare_and_upload:
  assumes "state_ok s"
      and "remote_filename = None \<longrightarrow>
             (image_data = None \<and> source_lookup source_name = None)
             \<or> (\<forall>entry\<in>set (uploaded_files s).
                   entry_key entry \<noteq> record_key a image_url source_name tv_ip)"
      and "\<forall>tv d ft w. fst (tv_upload env tv d ft w) \<noteq> UploadReturned (Some [])"
  shows "state_ok (snd (prepare_and_upload a env tv_ip image_data file_type image_url
                          remote_filename source_name s))"
proof -
  obtain d ft s1 where
    e: "ensure_image_data a env image_data file_type source_name image_url s = ((d, ft), s1)"
    by (metis surj_pair)
  have ok1: "state_ok s1"
    using state_ok_ensure_image_data
      [OF assms(1), of a env image_data file_type source_name image_url] e
    by simp
  have f1: "uploaded_files s1 = uploaded_files s"
    using ensure_image_data_files [of a env image_data file_type source_name image_url s] e
    by simp
  show ?thesis
  proof (cases "d = None \<or> ft = None")
    case True
    show ?thesis
      unfolding prepare_and_upload_failed [OF e True]
      using ok1 by (simp add: logging_def emit_def)
  next
    case False
    then obtain d' ft' where df: "d = Some d'" "ft = Some ft'" by auto
    have e': "ensure_image_data a env image_data file_type source_name image_url s
        = ((Some d', Some ft'), s1)"
      using e df by simp
    show ?thesis
    proof (cases "remote_filename = None")
      case True
      have "\<not> (image_data = None \<and> source_lookup source_name = None)"
      proof
        assume "image_data = None \<and> source_lookup source_name = None"
        then have "fst (ensure_image_data a env image_data file_type source_name image_url s)
            = (None, None)"
          by (simp add: ensure_image_data_no_source)
        then show False using e' by simp
      qed
      then have nk: "\<forall>entry\<in>set (uploaded_files s1).
          entry_key entry \<noteq> record_key a image_url source_name tv_ip"
        using assms(2) True f1 by auto
      show ?thesis
        unfolding prepare_and_upload_prepared [OF e']
        using True state_ok_upload_and_select [OF ok1 nk assms(3)] by simp
    next
      case False
      obtain out s2 where
        r: "remove_uploaded_entry a env image_url source_name tv_ip s1 = (out, s2)"
        by (metis surj_pair)
      have ok2: "state_ok s2"
        using state_ok_remove [OF ok1, of a env image_url source_name tv_ip] r by simp
      have nk: "\<forall>entry\<in>set (uploaded_files s2).
          entry_key entry \<noteq> record_key a image_url source_name tv_ip"
        using remove_uploaded_entry_files [of a env image_url source_name tv_ip s1] r
        by (simp add: without_key_no_key)
      show ?thesis
        unfolding prepare_and_upload_prepared [OF e']
        using False ok2 state_ok_upload_and_select [OF ok2 nk assms(3)]
        by (cases out) (simp_all add: r)
    qed
  qed
qed

lemma state_ok_process_tv:
  assumes "state_ok s"
      and "remote_filename = None \<longrightarrow>
             (image_data = None \<and> source_lookup source_name = None)
             \<or> (\<forall>entry\<in>set (uploaded_files s).
                   entry_key entry \<noteq> record_key a image_url source_name tv_ip)"
      and "\<forall>tv d ft w. fst (tv_upload env tv d ft w) \<noteq> UploadReturned (Some [])"
  shows "state_ok (snd (process_tv a env tv_ip image_data file_type image_url remote_filename
                          source_name s))"
proof (cases rule: process_tv_cases
    [where env = env and tv_ip = tv_ip and s = s and a = a and remote_filename = remote_filename])
  case (unreachable w1)
  then show ?thesis using assms(1) by (simp add: process_tv_unreachable)
next
  case (unsupported w1)
  then show ?thesis using assms(1) by (simp add: process_tv_unsupported)
next
  case (selected w1 name w2)
  then show ?thesis using assms(1) by (simp add: process_tv_selected)
next
  case (stale w1 name r w2)
  let ?t = "s\<lparr>world := w2,
             trace := trace s @
               [ArtSupported tv_ip, Log INFO, SelectImage tv_ip name, Log WARNING]\<rparr>"
  obtain out s1 where
    rm: "remove_uploaded_entry a env image_url source_name tv_ip ?t = (out, s1)"
    by (metis surj_pair)
  have okt: "state_ok ?t" using assms(1) by simp
  have ok1: "state_ok s1"
    using state_ok_remove [OF okt, of a env image_url source_name tv_ip] rm by simp
  have nk: "\<forall>entry\<in>set (uploaded_files s1).
      entry_key entry \<noteq> record_key a image_url source_name tv_ip"
    using remove_uploaded_entry_files [of a env image_url source_name tv_ip ?t] rm
    by (simp add: without_key_no_key)
  have "state_ok (snd (prepare_and_upload a env tv_ip image_data file_type image_url None
                         source_name s1))"
    using state_ok_prepare_and_upload [OF ok1 _ assms(3)] nk by simp
  then show ?thesis
    unfolding stale(3) process_tv_stale [OF stale(1,2,4,5)]
    using ok1 by (cases out) (simp_all add: rm)
next
  case (upload w1)
  let ?s1 = "s\<lparr>world := w1, trace := trace s @ [ArtSupported tv_ip]\<rparr>"
  have ok1: "state_ok ?s1" using assms(1) by simp
  show ?thesis
    unfolding process_tv_upload [OF upload]
    using state_ok_prepare_and_upload [OF ok1 _ assms(3)] assms(2) by simp
qed

lemma lookup_falsy_no_key:
  assumes "well_kept files"
      and "\<not> truthy (get_remote_filename a files image_url name tv_ip)"
  shows "\<forall>entry\<in>set files. entry_key entry \<noteq> record_key a image_url (Some name) tv_ip"
proof (cases "get_remote_filename a files image_url name tv_ip")
  case None
  then show ?thesis by (simp add: get_remote_filename_None)
next
  case (Some r)
  then have "r = []" using assms(2) by simp
  then show ?thesis
    using get_remote_filename_Some [OF Some] well_kept_names [OF assms(1)] by auto
qed

lemma source_lookup_None: "source_lookup None = None"
  by (simp add: source_lookup_def)

lemma get_image_for_tv_lookup:
  assumes "get_image_for_tv a env tv_ip s = ((d, ft, url, rf, src), s1)"
      and "well_kept (uploaded_files s)"
  shows "rf = None \<longrightarrow>
           (d = None \<and> source_lookup src = None)
           \<or> (\<forall>entry\<in>set (uploaded_files s1). entry_key entry \<noteq> record_key a url src tv_ip)"
proof -
  have f: "uploaded_files s1 = uploaded_files s"
    using get_image_for_tv_frame(1) [of a env tv_ip s] assms(1) by simp
  obtain i w0 where rnd: "random_index env (world s) = (i, w0)" by (metis surj_pair)
  let ?src = "sources a ! (i mod length (sources a))"
  obtain u w1 where gu: "src_get_image_url env ?src w0 = (u, w1)" by (metis surj_pair)
  let ?L = "get_remote_filename a (uploaded_files s) u (name_of_module ?src) tv_ip"
  show ?thesis
  proof (cases "truthy ?L")
    case True
    then obtain r where "?L = Some r" by (cases ?L) simp_all
    then show ?thesis
      using get_image_for_tv_stored [OF rnd refl gu True] assms(1) by simp
  next
    case False
    have nk: "\<forall>entry\<in>set (uploaded_files s).
        entry_key entry \<noteq> record_key a u (Some (name_of_module ?src)) tv_ip"
      using lookup_falsy_no_key [OF assms(2) False] .
    obtain dd tt w2 where gi: "src_get_image env ?src u w1 = ((dd, tt), w2)"
      by (metis surj_pair)
    show ?thesis
    proof (cases dd)
      case None
      then have "d = None \<and> src = None"
        using assms(1) rnd gu gi False
        by (simp add: get_image_for_tv_def random_choice_def call_get_image_url_def
            call_get_image_def logging_def emit_def Let_def)
      then show ?thesis by (simp add: source_lookup_None)
    next
      case (Some x)
      then have "url = u \<and> src = Some (name_of_module ?src)"
        using assms(1) rnd gu gi False
        by (simp add: get_image_for_tv_def random_choice_def call_get_image_url_def
            call_get_image_def call_resize_def logging_def emit_def Let_def)
      then show ?thesis using nk f by simp
    qed
  qed
qed

lemma state_ok_different_images_loop:
  assumes "\<forall>tv d ft w. fst (tv_upload env tv d ft w) \<noteq> UploadReturned (Some [])"
  shows "state_ok s \<Longrightarrow> state_ok (snd (different_images_loop a env tvs s))"
proof (induction tvs arbitrary: s)
  case Nil
  then show ?case by simp
next
  case (Cons tv tvs)
  obtain d ft url rf src s1 where g: "get_image_for_tv a env tv s = ((d, ft, url, rf, src), s1)"
    by (metis surj_pair)
  have ok1: "state_ok s1"
    using state_ok_same [OF Cons.prems, of s1] get_image_for_tv_frame(1,2) [of a env tv s] g
    by simp
  have pre: "rf = None \<longrightarrow>
           (d = None \<and> source_lookup src = None)
           \<or> (\<forall>entry\<in>set (uploaded_files s1). entry_key entry \<noteq> record_key a url src tv)"
    using get_image_for_tv_lookup [OF g] Cons.prems by (simp add: state_ok_def)
  obtain out s2 where p: "process_tv a env tv d ft url rf src s1 = (out, s2)"
    by (metis surj_pair)
  have ok2: "state_ok s2"
    using state_ok_process_tv [OF ok1 pre assms, where file_type = ft] p by simp
  show ?case
    using ok2 Cons.IH [OF ok2] by (cases out) (simp_all add: g p)
qed

lemma record_key_other_tv:
  "length (tvip a) > 1 \<Longrightarrow> tv \<noteq> tv' \<Longrightarrow>
   record_key a image_url source_name tv \<noteq> record_key a image_url source_name tv'"
  by (simp add: record_key_def)

lemma state_ok_same_image_loop:
  assumes "\<forall>tv d ft w. fst (tv_upload env tv d ft w) \<noteq> UploadReturned (Some [])"
      and "length (tvip a) > 1"
  shows "distinct tvs \<Longrightarrow> state_ok s \<Longrightarrow>
         \<forall>tv\<in>set tvs. rfs tv = None \<longrightarrow>
           (\<forall>entry\<in>set (uploaded_files s).
              entry_key entry \<noteq> record_key a image_url (Some source_name) tv) \<Longrightarrow>
         state_ok (snd (same_image_loop a env d ft image_url rfs source_name tvs s))"
proof (induction tvs arbitrary: s)
  case Nil
  then show ?case by simp
next
  case (Cons tv tvs)
  let ?s1 = "snd (process_tv a env tv d ft image_url (rfs tv) (Some source_name) s)"
  have pre: "rfs tv = None \<longrightarrow>
      (d = None \<and> source_lookup (Some source_name) = None)
      \<or> (\<forall>entry\<in>set (uploaded_files s).
            entry_key entry \<noteq> record_key a image_url (Some source_name) tv)"
    using Cons.prems(3) by simp
  have ok1: "state_ok ?s1"
    using state_ok_process_tv [OF Cons.prems(2) pre assms(1)] .
  have rest: "\<forall>tv'\<in>set tvs. rfs tv' = None \<longrightarrow>
      (\<forall>entry\<in>set (uploaded_files ?s1).
         entry_key entry \<noteq> record_key a image_url (Some source_name) tv')"
  proof (intro ballI impI)
    fix tv' entry
    assume t: "tv' \<in> set tvs" and n: "rfs tv' = None" and e: "entry \<in> set (uploaded_files ?s1)"
    have ne: "tv \<noteq> tv'" using Cons.prems(1) t by auto
    show "entry_key entry \<noteq> record_key a image_url (Some source_name) tv'"
    proof (cases "entry \<in> set (uploaded_files s)")
      case True
      then show ?thesis using Cons.prems(3) t n by simp
    next
      case False
      then have "entry_key entry = record_key a image_url (Some source_name) tv"
        using process_tv_written [OF e] by simp
      then show ?thesis using record_key_other_tv [OF assms(2) ne] by simp
    qed
  qed
  have d: "distinct tvs" using Cons.prems(1) by simp
  show ?case
    using ok1 Cons.IH [OF d ok1 rest]
    by (cases "process_tv a env tv d ft image_url (rfs tv) (Some source_name) s";
        cases "fst (process_tv a env tv d ft image_url (rfs tv) (Some source_name) s)")
      simp_all
qed

lemma state_ok_same_image_branch:
  fixes env :: "'w env" and s :: "'w state"
  assumes "\<forall>tv d ft w. fst (tv_upload env tv d ft w) \<noteq> UploadReturned (Some [])"
      and "length (tvip a) > 1" and "distinct (tvip a)" and "state_ok s"
  shows "state_ok (snd (same_image_branch a env s))"
proof -
  obtain i w0 where rnd: "random_index env (world s) = (i, w0)" by (metis surj_pair)
  let ?src = "sources a ! (i mod length (sources a))"
  obtain url w1 where u: "src_get_image_url env ?src w0 = (url, w1)" by (metis surj_pair)
  let ?s1 = "s\<lparr>world := w1, trace := trace s @ [RandomChoice, Log INFO, GetImageUrl ?src]\<rparr>"
  let ?L = "\<lambda>tv. get_remote_filename a (uploaded_files s) url (name_of_module ?src) tv"
  let ?rfs = "\<lambda>tv. if tv \<in> set (tvip a) \<and> truthy (?L tv) then ?L tv else None"
  have nk: "\<And>t :: 'w state. uploaded_files t = uploaded_files s \<Longrightarrow>
      \<forall>tv\<in>set (tvip a). ?rfs tv = None \<longrightarrow>
        (\<forall>entry\<in>set (uploaded_files t).
           entry_key entry \<noteq> record_key a url (Some (name_of_module ?src)) tv)"
  proof (intro ballI impI)
    fix t :: "'w state" and tv entry
    assume f: "uploaded_files t = uploaded_files s" and tv: "tv \<in> set (tvip a)"
      and n: "?rfs tv = None" and e: "entry \<in> set (uploaded_files t)"
    have "\<not> truthy (?L tv)"
    proof
      assume "truthy (?L tv)"
      then show False using n tv by (cases "?L tv") simp_all
    qed
    then show "entry_key entry \<noteq> record_key a url (Some (name_of_module ?src)) tv"
      using lookup_falsy_no_key [of "uploaded_files s" a url "name_of_module ?src" tv]
        assms(4) e f by (simp add: state_ok_def)
  qed
  have loop: "\<And>(t :: 'w state) d ft. uploaded_files t = uploaded_files s \<Longrightarrow> disk t = disk s \<Longrightarrow>
      state_ok (snd (same_image_loop a env d ft url ?rfs (name_of_module ?src) (tvip a) t))"
    using state_ok_same_image_loop [OF assms(1,2,3) state_ok_same [OF assms(4)] nk] by simp
  show ?thesis
  proof (cases "truthy url")
    case False
    show ?thesis
      unfolding same_image_branch_no_url [OF rnd u False] using assms(4) by simp
  next
    case True
    let ?targets = "filter (\<lambda>tv. \<not> truthy (?L tv)) (tvip a)"
    show ?thesis
    proof (cases "?targets = []")
      case True
      have "same_image_branch a env s =
          ended (same_image_loop a env None None url ?rfs (name_of_module ?src) (tvip a) ?s1)"
        using True \<open>truthy url\<close> rnd u
        by (simp add: same_image_branch_def random_choice_def call_get_image_url_def
            logging_def emit_def lookup_loop_result Let_def cong: if_cong)
      then show ?thesis using loop [of ?s1 None None] by (simp add: ended_fst)
    next
      case False
      obtain dd tt w2 where gi: "src_get_image env ?src url w1 = ((dd, tt), w2)"
        by (metis surj_pair)
      show ?thesis
      proof (cases dd)
        case None
        have "same_image_branch a env s =
            (SysExit 1, ?s1\<lparr>world := w2, trace := trace ?s1 @ [GetImage ?src url, Log ERROR]\<rparr>)"
          using False \<open>truthy url\<close> rnd u gi None
          by (simp add: same_image_branch_def random_choice_def call_get_image_url_def
              call_get_image_def logging_def emit_def lookup_loop_result Let_def cong: if_cong)
        then show ?thesis using assms(4) by simp
      next
        case (Some x)
        let ?s5 = "save_debug_image a (''debug_'' @ name_of_module ?src @ ''_resized.jpg'')
            (emit Resize (logging INFO (save_debug_image a
               (''debug_'' @ name_of_module ?src @ ''_original.jpg'')
               (?s1\<lparr>world := w2, trace := trace ?s1 @ [GetImage ?src url]\<rparr>))))"
        have eq: "same_image_branch a env s =
            ended (same_image_loop a env (Some (utils_resize_and_crop_image env x)) tt url
               ?rfs (name_of_module ?src) (tvip a) ?s5)"
          using False \<open>truthy url\<close> rnd u gi Some
          by (simp add: same_image_branch_def random_choice_def call_get_image_url_def
              call_get_image_def call_resize_def logging_def emit_def lookup_loop_result Let_def
              cong: if_cong)
        have "uploaded_files ?s5 = uploaded_files s" "disk ?s5 = disk s"
          by (simp_all add: save_debug_image_def logging_def emit_def)
        then show ?thesis using loop [of ?s5] eq by (simp add: ended_fst)
      qed
    qed
  qed
qed

lemma ensure_upload_dir_loop_frame:
  "uploaded_files (snd (ensure_upload_dir_loop env paths s)) = uploaded_files s"
  "disk (snd (ensure_upload_dir_loop env paths s)) = disk s"
  by (induction paths arbitrary: s) (auto simp add: step_defs split: prod.splits bool.splits)

lemma state_ok_run_devices:
  assumes "\<forall>tv d ft w. fst (tv_upload env tv d ft w) \<noteq> UploadReturned (Some [])"
      and "length (tvip a) > 1 \<and> use_same_image a \<longrightarrow> distinct (tvip a)"
      and "state_ok s"
  shows "state_ok (snd (run_devices a env s))"
proof (cases "length (tvip a) > 1 \<and> use_same_image a")
  case True
  then have "run_devices a env s = same_image_branch a env s" by (simp add: run_devices_def)
  then show ?thesis
    using state_ok_same_image_branch [OF assms(1) _ _ assms(3)] True assms(2) by simp
next
  case False
  then have "run_devices a env s = ended (different_images_loop a env (tvip a) s)"
    by (auto simp add: run_devices_def)
  then show ?thesis
    using state_ok_different_images_loop [OF assms(1,3)] by (simp add: ended_fst)
qed

lemma state_ok_script:
  assumes "\<forall>tv d ft w. fst (tv_upload env tv d ft w) \<noteq> UploadReturned (Some [])"
      and "length (tvip a) > 1 \<and> use_same_image a \<longrightarrow> distinct (tvip a)"
      and "\<forall>l\<in>ran files. well_kept l"
  shows "state_ok (snd (script a env files w))"
proof -
  obtain dir s0 where e: "ensure_upload_dir env (initial_state files w) = (dir, s0)"
    by (metis surj_pair)
  have f0: "uploaded_files s0 = []" "disk s0 = files"
    using ensure_upload_dir_loop_frame [of env "[PREFERRED_DIR, FALLBACK_DIR]" "initial_state files w"] e
    by (simp_all add: ensure_upload_dir_def initial_state_def)
  let ?path = "dir @ ''/uploaded_files.json''"
  let ?s1 = "s0\<lparr>upload_list_path := ?path,
               uploaded_files := (case disk s0 ?path of Some l \<Rightarrow> l | None \<Rightarrow> [])\<rparr>"
  have "well_kept (case files ?path of Some l \<Rightarrow> l | None \<Rightarrow> [])"
    using assms(3) by (auto simp add: well_kept_Nil ran_def split: option.splits)
  then have ok1: "state_ok ?s1"
    using assms(3) f0 by (simp add: state_ok_def)
  have "state_ok (snd (run_devices a env ?s1))"
    using state_ok_run_devices [OF assms(1,2) ok1] .
  then show ?thesis
    using ok1 by (simp add: script_def e Let_def logging_def emit_def)
qed

subsection \<open>A run that stores a record for every television\<close>
















subsection \<open>The directory of the upload list\<close>

lemma ensure_upload_dir_loop_first:
  "fst (ensure_upload_dir_loop env paths s) \<in> set paths \<union> {''.''}"
  by (induction paths arbitrary: s) (auto split: prod.splits bool.splits)

text \<open>
  Claim C8. \<open>ensure_upload_dir\<close> tries the preferred directory, then the fallback, and
  returns the first that \<^verbatim>\<open>os.makedirs\<close> can make, logging a warning for each that it cannot.
  If neither can be made it logs an error after the two warnings and returns the current
  directory. It returns a directory in every case: the \<^verbatim>\<open>OSError\<close> is caught.
\<close>

theorem ensure_upload_dir_first_creatable:
  assumes "os_makedirs env PREFERRED_DIR (world s) = (ok1, w1)"
      and "os_makedirs env FALLBACK_DIR w1 = (ok2, w2)"
  shows "ensure_upload_dir env s =
           (if ok1 then
              (PREFERRED_DIR, s\<lparr>world := w1, trace := trace s @ [Makedirs PREFERRED_DIR]\<rparr>)
            else if ok2 then
              (FALLBACK_DIR,
               s\<lparr>world := w2,
                  trace := trace s @
                    [Makedirs PREFERRED_DIR, Log WARNING, Makedirs FALLBACK_DIR]\<rparr>)
            else
              (''.'',
               s\<lparr>world := w2,
                  trace := trace s @
                    [Makedirs PREFERRED_DIR, Log WARNING, Makedirs FALLBACK_DIR, Log WARNING,
                     Log ERROR]\<rparr>))"
  using assms by (simp add: ensure_upload_dir_def step_defs)

theorem ensure_upload_dir_first_creatable_witness:
  "ensure_upload_dir
     (fixed_env True (\<lambda>n. SelectOk) UploadRaised None (None, None) (\<lambda>p. p = FALLBACK_DIR))
     (initial_state Map.empty ())
   = (FALLBACK_DIR,
      (initial_state Map.empty ())
        \<lparr>trace := [Makedirs PREFERRED_DIR, Log WARNING, Makedirs FALLBACK_DIR]\<rparr>)"
  using ensure_upload_dir_first_creatable
    [of "fixed_env True (\<lambda>n. SelectOk) UploadRaised None (None, None) (\<lambda>p. p = FALLBACK_DIR)"
        "initial_state Map.empty ()" False "()" True "()"]
  by (simp add: fixed_env_def initial_state_def PREFERRED_DIR_def FALLBACK_DIR_def)

text \<open>
  Claim C10. A record is stored, \<open>process_tv\<close> is called with its remote file name without
  \<^verbatim>\<open>--upload-all\<close>, the television supports art mode and the select fails (with a
  \<^verbatim>\<open>ResponseError\<close> or with any other exception). \<open>remove_uploaded_entry\<close> then takes the
  records of the key out of the list at line 144 or 149. If its write raises, \<open>process_tv\<close>
  ends there; if it returns and \<open>ensure_image_data\<close> fails to give both the image data and
  the file type, \<open>process_tv\<close> returns after line 158. Either way no upload is attempted and
  no record is written, so the list ends without a record for the key, and differs from the
  list before whenever that held one.
\<close>

theorem stale_record_lost_when_preparation_fails:
  assumes "\<not> arg_upload_all a"
      and "tv_supported env tv_ip (world s) = (SupportedReturned True, w1)"
      and "tv_select_image env tv_ip name w1 = (r, w2)" and "r \<noteq> SelectOk"
      and "remove_uploaded_entry a env image_url source_name tv_ip (s\<lparr>world := w2\<rparr>) = (out, q)"
      and "out = Raised
           \<or> (ensure_image_data a env image_data file_type source_name image_url
                 (s\<lparr>world := world q\<rparr>) = ((d, ft), p)
              \<and> (d = None \<or> ft = None))"
  shows "uploaded_files
           (snd (process_tv a env tv_ip image_data file_type image_url (Some name)
                   source_name s))
           = without_key (record_key a image_url source_name tv_ip) (uploaded_files s)
       \<and> (\<forall>entry\<in>set (uploaded_files
              (snd (process_tv a env tv_ip image_data file_type image_url (Some name)
                      source_name s))).
             entry_key entry \<noteq> record_key a image_url source_name tv_ip)
       \<and> uploads (trace
           (snd (process_tv a env tv_ip image_data file_type image_url (Some name)
                   source_name s)))
           = uploads (trace s)
       \<and> ((\<exists>entry\<in>set (uploaded_files s).
              entry_key entry = record_key a image_url source_name tv_ip) \<longrightarrow>
           uploaded_files
             (snd (process_tv a env tv_ip image_data file_type image_url (Some name)
                     source_name s))
             \<noteq> uploaded_files s)"
proof -
  obtain s2 where s2:
    "remove_uploaded_entry a env image_url source_name tv_ip
       (s\<lparr>world := w2,
          trace := trace s @
            [ArtSupported tv_ip, Log INFO, SelectImage tv_ip name, Log WARNING]\<rparr>)
     = (out, s2)"
    "world s2 = world q"
    "uploaded_files s2 = without_key (record_key a image_url source_name tv_ip) (uploaded_files s)"
    "uploads (trace s2) = uploads (trace s)"
    using process_tv_stale_removed [OF assms(5)] by metis
  have "\<exists>s3. snd (process_tv a env tv_ip image_data file_type image_url (Some name)
                    source_name s) = s3
      \<and> uploaded_files s3 = uploaded_files s2 \<and> uploads (trace s3) = uploads (trace s2)"
  proof (cases out)
    case Raised
    then show ?thesis
      unfolding process_tv_stale [OF assms(2,1,3,4)] by (simp add: s2(1))
  next
    case Returned
    then have e: "ensure_image_data a env image_data file_type source_name image_url
        (s\<lparr>world := world q\<rparr>) = ((d, ft), p)" and df: "d = None \<or> ft = None"
      using assms(6) by simp_all
    obtain res s3 where
      e2: "ensure_image_data a env image_data file_type source_name image_url s2 = (res, s3)"
      by (metis surj_pair)
    have "world s2 = world (s\<lparr>world := world q\<rparr>)" using s2(2) by simp
    then have "res = (d, ft)"
      using ensure_image_data_same_world(1)
        [of s2 "s\<lparr>world := world q\<rparr>" a env image_data file_type source_name image_url]
        e e2 by simp
    then have e3: "ensure_image_data a env image_data file_type source_name image_url s2
        = ((d, ft), s3)"
      using e2 by simp
    have "uploaded_files s3 = uploaded_files s2" "uploads (trace s3) = uploads (trace s2)"
      using ensure_image_data_files [of a env image_data file_type source_name image_url s2]
        ensure_image_data_obs(1) [of a env image_data file_type source_name image_url s2] e3
      by simp_all
    then show ?thesis
      unfolding process_tv_stale [OF assms(2,1,3,4)]
      using Returned prepare_and_upload_failed [OF e3 df]
      by (simp add: s2(1) logging_def emit_def)
  qed
  then show ?thesis
    using s2(3,4) without_key_no_key without_key_changes by auto
qed

theorem stale_record_lost_when_preparation_fails_witness:
  "uploaded_files
     (snd (process_tv (some_args ''10.0.0.1'' False False)
        (fixed_env True (\<lambda>n. SelectResponseError) (UploadReturned (Some ''new'')) (Some ''u'')
           (None, None) (\<lambda>p. True))
        ''10.0.0.1'' None None (Some ''u'') (Some ''old'') (Some ''sources.bing_wallpapers'')
        (stored [bing_entry ''old'' None]))) = []
   \<and> uploads (trace
     (snd (process_tv (some_args ''10.0.0.1'' False False)
        (fixed_env True (\<lambda>n. SelectResponseError) (UploadReturned (Some ''new'')) (Some ''u'')
           (None, None) (\<lambda>p. True))
        ''10.0.0.1'' None None (Some ''u'') (Some ''old'') (Some ''sources.bing_wallpapers'')
        (stored [bing_entry ''old'' None])))) = 0"
proof -
  let ?a = "some_args ''10.0.0.1'' False False"
  let ?env = "fixed_env True (\<lambda>n. SelectResponseError) (UploadReturned (Some ''new''))
                (Some ''u'') (None, None) (\<lambda>p. True)"
  let ?s = "stored [bing_entry ''old'' None]"
  let ?rem = "remove_uploaded_entry ?a ?env (Some ''u'') (Some ''sources.bing_wallpapers'')
                ''10.0.0.1'' (?s\<lparr>world := ()\<rparr>)"
  have h1: "\<not> arg_upload_all ?a" by (simp add: some_args_def)
  have h2: "tv_supported ?env ''10.0.0.1'' (world ?s) = (SupportedReturned True, ())"
    by (simp add: fixed_env_def)
  have h3: "tv_select_image ?env ''10.0.0.1'' ''old'' () = (SelectResponseError, ())"
    by (simp add: fixed_env_def)
  have h4: "SelectResponseError \<noteq> SelectOk" by simp
  have h5: "?rem = (fst ?rem, snd ?rem)" by simp
  have h6: "fst ?rem = Raised
      \<or> (ensure_image_data ?a ?env None None (Some ''sources.bing_wallpapers'') (Some ''u'')
            (?s\<lparr>world := world (snd ?rem)\<rparr>)
          = ((None, None),
             ?s\<lparr>trace := [GetImage bing_wallpapers (Some ''u''), Log ERROR]\<rparr>)
         \<and> ((None :: bytes option) = None \<or> (None :: string option) = None))"
    by (simp add: ensure_image_data_def source_lookup_def fixed_env_def stored_def
        initial_state_def step_defs)
  show ?thesis
    using stale_record_lost_when_preparation_fails [OF h1 h2 h3 h4 h5 h6]
    by (simp add: stored_def initial_state_def without_key_def record_key_def entry_key_def
        bing_entry_def some_args_def tvip_def)
qed

text \<open>
  Claim C3, as stated, promises exactly one re-upload whenever the select of a stored image
  fails. It fails when the image cannot be prepared: the record is removed and \<open>process_tv\<close>
  returns at line 159 without an upload. Here the select raises \<^verbatim>\<open>ResponseError\<close> and the
  source returns no image data.
\<close>

theorem stale_record_reupload_counterexample:
  "uploads (trace
     (snd (process_tv (some_args ''10.0.0.1'' False False)
        (fixed_env True (\<lambda>n. SelectResponseError) (UploadReturned (Some ''new'')) (Some ''u'')
           (None, None) (\<lambda>p. True))
        ''10.0.0.1'' None None (Some ''u'') (Some ''old'') (Some ''sources.bing_wallpapers'')
        (stored [bing_entry ''old'' None])))) = 0
   \<and> uploaded_files
     (snd (process_tv (some_args ''10.0.0.1'' False False)
        (fixed_env True (\<lambda>n. SelectResponseError) (UploadReturned (Some ''new'')) (Some ''u'')
           (None, None) (\<lambda>p. True))
        ''10.0.0.1'' None None (Some ''u'') (Some ''old'') (Some ''sources.bing_wallpapers'')
        (stored [bing_entry ''old'' None]))) = []"
  by (simp add: run_defs step_defs Let_def)

text \<open>
  Claim C3, amended. When the select of a stored image fails, with a \<^verbatim>\<open>ResponseError\<close> or
  with any other exception, \<open>process_tv\<close> removes the records of the key. If the write of the
  shortened list returns (it is not caught, lines 95 and 96) and \<open>ensure_image_data\<close> gives
  the image data and the file type, \<open>process_tv\<close> returns after exactly one attempted upload;
  if the upload returns a name and the select of that name succeeds, the list is the old one
  without the records of the key followed by one new record of the same key with the new
  name, and otherwise it is the old list without the records of the key.
\<close>

theorem stale_record_reupload:
  assumes "\<not> arg_upload_all a"
      and "tv_supported env tv_ip (world s) = (SupportedReturned True, w1)"
      and "tv_select_image env tv_ip name w1 = (r, w2)" and "r \<noteq> SelectOk"
      and "remove_uploaded_entry a env image_url source_name tv_ip (s\<lparr>world := w2\<rparr>)
             = (Returned, q)"
      and "ensure_image_data a env image_data file_type source_name image_url
             (s\<lparr>world := world q\<rparr>) = ((Some d, Some ft), p)"
  shows "fst (process_tv a env tv_ip image_data file_type image_url (Some name) source_name s)
           = Returned
       \<and> uploads (trace
           (snd (process_tv a env tv_ip image_data file_type image_url (Some name)
                   source_name s)))
           = uploads (trace s) + 1
       \<and> uploaded_files
           (snd (process_tv a env tv_ip image_data file_type image_url (Some name)
                   source_name s))
           = without_key (record_key a image_url source_name tv_ip) (uploaded_files s) @
             (case tv_upload env tv_ip d ft (world p) of
                (UploadReturned (Some new_name), w3) \<Rightarrow>
                  (case tv_select_image env tv_ip new_name w3 of
                     (SelectOk, w4) \<Rightarrow> [new_entry a image_url source_name tv_ip new_name]
                   | (r', w4) \<Rightarrow> [])
              | (u, w3) \<Rightarrow> [])
       \<and> entry_key (new_entry a image_url source_name tv_ip new_name)
           = record_key a image_url source_name tv_ip"
proof -
  obtain s2 where s2:
    "remove_uploaded_entry a env image_url source_name tv_ip
       (s\<lparr>world := w2,
          trace := trace s @
            [ArtSupported tv_ip, Log INFO, SelectImage tv_ip name, Log WARNING]\<rparr>)
     = (Returned, s2)"
    "world s2 = world q"
    "uploaded_files s2 = without_key (record_key a image_url source_name tv_ip) (uploaded_files s)"
    "uploads (trace s2) = uploads (trace s)"
    using process_tv_stale_removed [OF assms(5)] by metis
  obtain res s3 where
    e2: "ensure_image_data a env image_data file_type source_name image_url s2 = (res, s3)"
    by (metis surj_pair)
  have w: "world s2 = world (s\<lparr>world := world q\<rparr>)" using s2(2) by simp
  have "res = (Some d, Some ft)" "world s3 = world p"
    using ensure_image_data_same_world [OF w, of a env image_data file_type source_name image_url]
      assms(6) e2 by simp_all
  then have e3: "ensure_image_data a env image_data file_type source_name image_url s2
      = ((Some d, Some ft), s3)" and w3: "world s3 = world p"
    using e2 by simp_all
  have f3: "uploaded_files s3 = uploaded_files s2" "uploads (trace s3) = uploads (trace s2)"
    using ensure_image_data_files [of a env image_data file_type source_name image_url s2]
      ensure_image_data_obs(1) [of a env image_data file_type source_name image_url s2] e3
    by simp_all
  have eq: "process_tv a env tv_ip image_data file_type image_url (Some name) source_name s
      = (Returned, upload_and_select a env tv_ip d ft image_url source_name s3)"
    unfolding process_tv_stale [OF assms(2,1,3,4)]
    using prepare_and_upload_prepared [OF e3] by (simp add: s2(1))
  show ?thesis
    unfolding eq
    by (simp add: upload_and_select_obs upload_and_select_files s2(3,4) f3 w3
        entry_key_def new_entry_def record_key_def)
qed

theorem stale_record_reupload_witness:
  "uploads (trace
     (snd (process_tv (some_args ''10.0.0.1'' False False)
        (fixed_env True (\<lambda>n. if n = ''old'' then SelectOtherError else SelectOk)
           (UploadReturned (Some ''new'')) (Some ''u'') (Some [1], Some ''JPEG'') (\<lambda>p. True))
        ''10.0.0.1'' None None (Some ''u'') (Some ''old'') (Some ''sources.bing_wallpapers'')
        (stored [bing_entry ''old'' None])))) = 1
   \<and> uploaded_files
     (snd (process_tv (some_args ''10.0.0.1'' False False)
        (fixed_env True (\<lambda>n. if n = ''old'' then SelectOtherError else SelectOk)
           (UploadReturned (Some ''new'')) (Some ''u'') (Some [1], Some ''JPEG'') (\<lambda>p. True))
        ''10.0.0.1'' None None (Some ''u'') (Some ''old'') (Some ''sources.bing_wallpapers'')
        (stored [bing_entry ''old'' None]))) = [bing_entry ''new'' None]"
proof -
  let ?a = "some_args ''10.0.0.1'' False False"
  let ?env = "fixed_env True (\<lambda>n. if n = ''old'' then SelectOtherError else SelectOk)
                (UploadReturned (Some ''new'')) (Some ''u'') (Some [1], Some ''JPEG'')
                (\<lambda>p. True)"
  let ?s = "stored [bing_entry ''old'' None]"
  let ?rem = "remove_uploaded_entry ?a ?env (Some ''u'') (Some ''sources.bing_wallpapers'')
                ''10.0.0.1'' (?s\<lparr>world := ()\<rparr>)"
  have h1: "\<not> arg_upload_all ?a" by (simp add: some_args_def)
  have h2: "tv_supported ?env ''10.0.0.1'' (world ?s) = (SupportedReturned True, ())"
    by (simp add: fixed_env_def)
  have h3: "tv_select_image ?env ''10.0.0.1'' ''old'' () = (SelectOtherError, ())"
    by (simp add: fixed_env_def)
  have h4: "SelectOtherError \<noteq> SelectOk" by simp
  have "fst ?rem = Returned"
    by (simp add: remove_uploaded_entry_def write_upload_list_def fixed_env_def stored_def
        initial_state_def bing_entry_def some_args_def tvip_def Let_def)
  then have h5: "?rem = (Returned, snd ?rem)" by (metis prod.collapse)
  have h6: "ensure_image_data ?a ?env None None (Some ''sources.bing_wallpapers'') (Some ''u'')
              (?s\<lparr>world := world (snd ?rem)\<rparr>)
            = ((Some [1], Some ''JPEG''),
               ?s\<lparr>trace := [GetImage bing_wallpapers (Some ''u''), Log INFO, Resize]\<rparr>)"
    by (simp add: ensure_image_data_def source_lookup_def fixed_env_def stored_def
        initial_state_def step_defs some_args_def)
  show ?thesis
    using stale_record_reupload [OF h1 h2 h3 h4 h5 h6]
    by (simp add: stored_def initial_state_def without_key_def record_key_def entry_key_def
        bing_entry_def new_entry_def some_args_def tvip_def fixed_env_def)
qed

text \<open>
  When the upload list cannot be written, the write of line 96 raises inside the handler of
  line 142: \<open>process_tv\<close> is left before any upload.
\<close>

lemma stale_record_unwritable_list:
  "fst (process_tv (some_args ''10.0.0.1'' False False)
          (unwritable
             (fixed_env True (\<lambda>n. if n = ''old'' then SelectResponseError else SelectOk)
                (UploadReturned (Some ''new'')) (Some ''u'') (Some [1], Some ''JPEG'')
                (\<lambda>p. True)))
          ''10.0.0.1'' None None (Some ''u'') (Some ''old'') (Some ''sources.bing_wallpapers'')
          (stored [bing_entry ''old'' None])) = Raised
   \<and> uploads (trace
       (snd (process_tv (some_args ''10.0.0.1'' False False)
          (unwritable
             (fixed_env True (\<lambda>n. if n = ''old'' then SelectResponseError else SelectOk)
                (UploadReturned (Some ''new'')) (Some ''u'') (Some [1], Some ''JPEG'')
                (\<lambda>p. True)))
          ''10.0.0.1'' None None (Some ''u'') (Some ''old'') (Some ''sources.bing_wallpapers'')
          (stored [bing_entry ''old'' None])))) = 0"
  by (simp add: run_defs step_defs Let_def)

subsection \<open>An upload that returns an empty name\<close>

lemma upload_without_name_writes_nothing:
  assumes "fst (tv_upload env tv_ip d ft (world s)) = UploadReturned None
           \<or> fst (tv_upload env tv_ip d ft (world s)) = UploadRaised"
  shows "uploaded_files (upload_and_select a env tv_ip d ft image_url source_name s)
           = uploaded_files s"
  using assms by (auto simp add: upload_and_select_files split: prod.splits)

text \<open>
  Claim C6 holds for a missing name and fails for an empty one. Line 168 rejects only
  \<^verbatim>\<open>None\<close>; when the television answers the upload with the empty string and accepts the
  select of it, a record with an empty \<^verbatim>\<open>remote_filename\<close> is written. Here the script runs
  for one television on an empty disk.
\<close>

theorem empty_remote_filename_is_stored:
  "uploaded_files
     (snd (script (some_args ''10.0.0.1'' False False)
             (fixed_env True (\<lambda>n. SelectOk) (UploadReturned (Some [])) (Some ''u'')
                (Some [1], Some ''JPEG'') (\<lambda>p. True))
             Map.empty ()))
   = [bing_entry [] None]"
  by (simp add: run_defs step_defs Let_def)

text \<open>
  The lookup of the next run takes the empty name for no record (line 193), so the image is
  uploaded again and a second record of the same key is appended.
\<close>

lemma empty_remote_filename_is_uploaded_again:
  "uploaded_files
     (snd (script (some_args ''10.0.0.1'' False False)
             (fixed_env True (\<lambda>n. SelectOk) (UploadReturned (Some [])) (Some ''u'')
                (Some [1], Some ''JPEG'') (\<lambda>p. True))
             (disk (snd (script (some_args ''10.0.0.1'' False False)
                (fixed_env True (\<lambda>n. SelectOk) (UploadReturned (Some [])) (Some ''u'')
                   (Some [1], Some ''JPEG'') (\<lambda>p. True))
                Map.empty ())))
             ()))
   = [bing_entry [] None, bing_entry [] None]"
  by (simp add: run_defs step_defs Let_def)

subsection \<open>The device scope of a record\<close>

text \<open>
  Claim C9. For a television of the list \<^verbatim>\<open>tvip\<close>, the scope of a record is \<^verbatim>\<open>None\<close> exactly
  when the list has one address, and the address of the television otherwise, also when the
  same image goes to all televisions. \<open>remove_uploaded_entry\<close> removes exactly the records of
  the image, the source and that scope; every record that \<open>process_tv\<close> adds or removes has
  that key; and the lookup (modelled from the specification) finds a record of that key, and
  finds nothing exactly when there is none.
\<close>

theorem device_scope_of_records:
  assumes "tv_ip \<in> set (tvip a)"
  shows "uploaded_files (snd (remove_uploaded_entry a env image_url source_name tv_ip s))
           = filter (\<lambda>entry. entry_key entry \<noteq>
                       (image_url, source_name,
                        if length (tvip a) = 1 then None else Some tv_ip))
               (uploaded_files s)
       \<and> (\<forall>entry\<in>set (uploaded_files
              (snd (process_tv a env tv_ip image_data file_type image_url remote_filename
                      source_name s))) - set (uploaded_files s).
             entry_key entry =
               (image_url, source_name, if length (tvip a) = 1 then None else Some tv_ip))
       \<and> (\<forall>entry\<in>set (uploaded_files s) - set (uploaded_files
              (snd (process_tv a env tv_ip image_data file_type image_url remote_filename
                      source_name s))).
             entry_key entry =
               (image_url, source_name, if length (tvip a) = 1 then None else Some tv_ip))
       \<and> (\<forall>r. get_remote_filename a files image_url name tv_ip = Some r \<longrightarrow>
             (\<exists>entry\<in>set files.
                entry_key entry =
                  (image_url, Some name, if length (tvip a) = 1 then None else Some tv_ip)
                \<and> e_remote_filename entry = r))
       \<and> (get_remote_filename a files image_url name tv_ip = None \<longleftrightarrow>
            (\<forall>entry\<in>set files.
               entry_key entry \<noteq>
                 (image_url, Some name, if length (tvip a) = 1 then None else Some tv_ip)))"
proof -
  have k: "\<And>src. record_key a image_url src tv_ip
      = (image_url, src, if length (tvip a) = 1 then None else Some tv_ip)"
    using scope_single [OF assms] by (simp add: record_key_def)
  show ?thesis
    using process_tv_written
        [of _ a env tv_ip image_data file_type image_url remote_filename source_name s]
      process_tv_removed
        [of _ s a env tv_ip image_data file_type image_url remote_filename source_name]
      get_remote_filename_Some [of a files image_url name tv_ip]
      get_remote_filename_None [of a files image_url name tv_ip]
    unfolding k
    by (auto simp add: remove_uploaded_entry_files k without_key_def)
qed

theorem device_scope_of_records_witness:
  "uploaded_files
     (snd (remove_uploaded_entry (some_args ''10.0.0.1,10.0.0.2'' True False)
        (fixed_env True (\<lambda>n. SelectOk) UploadRaised None (None, None) (\<lambda>p. True))
        (Some ''u'') (Some ''sources.bing_wallpapers'') ''10.0.0.2''
        (stored [bing_entry ''x'' (Some ''10.0.0.1''), bing_entry ''y'' (Some ''10.0.0.2''),
                 bing_entry ''z'' None])))
   = [bing_entry ''x'' (Some ''10.0.0.1''), bing_entry ''z'' None]"
proof -
  have h: "''10.0.0.2'' \<in> set (tvip (some_args ''10.0.0.1,10.0.0.2'' True False))"
    by (simp add: tvip_def some_args_def)
  show ?thesis
    using device_scope_of_records [OF h,
        where s = "stored [bing_entry ''x'' (Some ''10.0.0.1''),
                           bing_entry ''y'' (Some ''10.0.0.2''), bing_entry ''z'' None]"
          and image_url = "Some ''u''" and source_name = "Some ''sources.bing_wallpapers''"
          and env = "fixed_env True (\<lambda>n. SelectOk) UploadRaised None (None, None)
                       (\<lambda>p. True)"
          and image_data = None and file_type = None and remote_filename = None
          and files = "[]" and name = "''n''"]
    by (simp add: stored_def initial_state_def bing_entry_def entry_key_def tvip_def
        some_args_def)
qed

subsection \<open>Failures and the end of the script\<close>




subsection \<open>Fetching in same-image mode\<close>




subsection \<open>Reusing a stored image\<close>




subsection \<open>One record for a key\<close>

text \<open>
  Claim C1, as stated, has every insert preceded by the removal of the records of the key.
  \<open>process_tv\<close> removes them only when it is called with a remote file name (lines 144, 149
  and 162); called with \<^verbatim>\<open>None\<close> it appends without looking at the list. In same-image mode
  the lookups of all televisions are made before the first television is processed, so an
  address that stands twice in \<^verbatim>\<open>--tvip\<close> is found without a record twice, and two records
  of the same key are written.
\<close>

theorem unique_keys_kept_counterexample:
  "\<not> unique_keys (uploaded_files (snd
       (script (some_args ''10.0.0.1,10.0.0.1'' True False)
          (fixed_env True (\<lambda>n. SelectOk) (UploadReturned (Some ''new'')) (Some ''u'')
             (Some [1], Some ''JPEG'') (\<lambda>p. True))
          Map.empty ())))"
  by (simp add: run_defs step_defs Let_def unique_keys_def entry_key_def)

text \<open>
  Claim C1, amended. Suppose that no television answers an upload with the empty name and
  that, in same-image mode, the addresses of \<^verbatim>\<open>--tvip\<close> are pairwise different. Then a run
  of the script on a disk whose upload lists are well kept (unique keys, non-empty names)
  ends with a list of unique keys, and every upload list on the disk is well kept again, so
  the same holds for any number of runs: a record is appended only when the lookup has found
  no record of the key or after the records of the key have been removed. This holds however
  the run ends, also when an exception ends it or a write of the list fails.
\<close>

theorem unique_keys_kept:
  assumes "\<forall>tv d ft w. fst (tv_upload env tv d ft w) \<noteq> UploadReturned (Some [])"
      and "length (tvip a) > 1 \<and> use_same_image a \<longrightarrow> distinct (tvip a)"
      and "\<forall>l\<in>ran files. well_kept l"
  shows "unique_keys (uploaded_files (snd (script a env files w)))
       \<and> (\<forall>l\<in>ran (disk (snd (script a env files w))). well_kept l)"
  using state_ok_script [OF assms] by (simp add: state_ok_def well_kept_def)

theorem unique_keys_kept_witness:
  "unique_keys (uploaded_files (snd
       (script (some_args ''10.0.0.1,10.0.0.2'' True False)
          (fixed_env True (\<lambda>n. SelectOk) (UploadReturned (Some ''new'')) (Some ''u'')
             (Some [1], Some ''JPEG'') (\<lambda>p. True))
          Map.empty ())))
   \<and> uploaded_files (snd
       (script (some_args ''10.0.0.1,10.0.0.2'' True False)
          (fixed_env True (\<lambda>n. SelectOk) (UploadReturned (Some ''new'')) (Some ''u'')
             (Some [1], Some ''JPEG'') (\<lambda>p. True))
          Map.empty ()))
     = [bing_entry ''new'' (Some ''10.0.0.1''), bing_entry ''new'' (Some ''10.0.0.2'')]"
proof -
  let ?a = "some_args ''10.0.0.1,10.0.0.2'' True False"
  let ?env = "fixed_env True (\<lambda>n. SelectOk) (UploadReturned (Some ''new'')) (Some ''u'')
                (Some [1], Some ''JPEG'') (\<lambda>p. True)"
  have h1: "\<forall>tv d ft w. fst (tv_upload ?env tv d ft w) \<noteq> UploadReturned (Some [])"
    by (simp add: fixed_env_def)
  have h2: "length (tvip ?a) > 1 \<and> use_same_image ?a \<longrightarrow> distinct (tvip ?a)"
    by (simp add: tvip_def some_args_def)
  have h3: "\<forall>l\<in>ran (Map.empty :: string \<rightharpoonup> entry list). well_kept l"
    by simp
  have "uploaded_files (snd (script ?a ?env Map.empty ()))
     = [bing_entry ''new'' (Some ''10.0.0.1''), bing_entry ''new'' (Some ''10.0.0.2'')]"
    by (simp add: run_defs step_defs Let_def)
  then show ?thesis
    using unique_keys_kept [OF h1 h2 h3, of "()"] by simp
qed

end
